theory Spec2Isabelle
  imports Complex_Main
begin

section \<open>Unscented Kalman filter of \<open>src/ukf.cpp\<close>\<close>

text \<open>
  The development embeds the class \<open>UKF\<close> of \<open>src/ukf.cpp\<close>. A \<open>double\<close> is modelled
  as an exact \<open>real\<close>: rounding, overflow, infinities and NaN are outside the model, and
  a division by zero has HOL's value \<open>0\<close> where IEEE arithmetic gives an infinity or a
  NaN. Every statement below that depends on this is said so in its text.
  The members of the class keep their names without the trailing underscore, which
  Isabelle does not accept in a name (\<open>x_\<close> is \<open>x\<close>, \<open>nis_laser_\<close> is \<open>nis_laser\<close>).
\<close>

subsection \<open>Vectors and matrices of Eigen\<close>

text \<open>
  An Eigen \<open>VectorXd\<close> is a list of reals. A \<open>MatrixXd\<close> is the list of its rows, but
  for the two sigma point matrices, which the code reads and writes column by column
  and which are kept as the list of their columns.
\<close>

type_synonym vec = "real list"
type_synonym mat = "real list list"

definition vec_add :: "vec \<Rightarrow> vec \<Rightarrow> vec" where
  "vec_add u v = map2 (+) u v"

definition vec_sub :: "vec \<Rightarrow> vec \<Rightarrow> vec" where
  "vec_sub u v = map2 (-) u v"

definition scal_vec :: "real \<Rightarrow> vec \<Rightarrow> vec" where
  "scal_vec c v = map ((*) c) v"

definition dot :: "vec \<Rightarrow> vec \<Rightarrow> real" where
  "dot u v = sum_list (map2 (*) u v)"

definition zero_vec :: "nat \<Rightarrow> vec" where
  "zero_vec n = replicate n 0"

definition zero_mat :: "nat \<Rightarrow> nat \<Rightarrow> mat" where
  "zero_mat r c = replicate r (replicate c 0)"

definition mat_add :: "mat \<Rightarrow> mat \<Rightarrow> mat" where
  "mat_add A B = map2 vec_add A B"

definition mat_sub :: "mat \<Rightarrow> mat \<Rightarrow> mat" where
  "mat_sub A B = map2 vec_sub A B"

definition scal_mat :: "real \<Rightarrow> mat \<Rightarrow> mat" where
  "scal_mat c A = map (scal_vec c) A"

definition outer :: "vec \<Rightarrow> vec \<Rightarrow> mat" where
  \<comment> \<open>\<open>u * v.transpose()\<close>\<close>
  "outer u v = map (\<lambda>a. scal_vec a v) u"

definition col :: "mat \<Rightarrow> nat \<Rightarrow> vec" where
  "col A j = map (\<lambda>r. r ! j) A"

definition mat_transpose :: "mat \<Rightarrow> mat" where
  "mat_transpose A = (case A of [] \<Rightarrow> [] | r # _ \<Rightarrow> map (col A) [0..<length r])"

definition mat_vec :: "mat \<Rightarrow> vec \<Rightarrow> vec" where
  \<comment> \<open>matrix times column vector\<close>
  "mat_vec A v = map (\<lambda>r. dot r v) A"

definition vec_mat :: "vec \<Rightarrow> mat \<Rightarrow> vec" where
  \<comment> \<open>row vector times matrix: \<open>v.transpose() * A\<close>\<close>
  "vec_mat v A = map (dot v) (mat_transpose A)"

definition mat_mul :: "mat \<Rightarrow> mat \<Rightarrow> mat" where
  "mat_mul A B = map (\<lambda>r. vec_mat r B) A"

subsection \<open>Angle normalization\<close>

text \<open>
  The two loops that the code writes after every angle residual:
  \<^verbatim>\<open>while (d > M_PI) d -= 2.*M_PI;  while (d < -M_PI) d += 2.*M_PI;\<close>
\<close>

function angle_down :: "real \<Rightarrow> real" where
  "angle_down d = (if d > pi then angle_down (d - 2 * pi) else d)"
  by pat_completeness auto
termination
proof (relation "measure (\<lambda>d. nat \<lceil>(d - pi) / (2 * pi)\<rceil>)")
  show "wf (measure (\<lambda>d. nat \<lceil>(d - pi) / (2 * pi)\<rceil>))" by simp
next
  fix d :: real assume h: "pi < d"
  have e: "(d - 2 * pi - pi) / (2 * pi) = (d - pi) / (2 * pi) - 1"
    by (simp add: field_simps)
  have "0 < (d - pi) / (2 * pi)" using h by simp
  then have "1 \<le> \<lceil>(d - pi) / (2 * pi)\<rceil>" by (simp add: Suc_le_eq)
  then have "nat \<lceil>(d - pi) / (2 * pi) - 1\<rceil> < nat \<lceil>(d - pi) / (2 * pi)\<rceil>" by simp
  then show "(d - 2 * pi, d) \<in> measure (\<lambda>d. nat \<lceil>(d - pi) / (2 * pi)\<rceil>)"
    unfolding in_measure e .
qed

function angle_up :: "real \<Rightarrow> real" where
  "angle_up d = (if d < - pi then angle_up (d + 2 * pi) else d)"
  by pat_completeness auto
termination
proof (relation "measure (\<lambda>d. nat \<lceil>(- pi - d) / (2 * pi)\<rceil>)")
  show "wf (measure (\<lambda>d. nat \<lceil>(- pi - d) / (2 * pi)\<rceil>))" by simp
next
  fix d :: real assume h: "d < - pi"
  have e: "(- pi - (d + 2 * pi)) / (2 * pi) = (- pi - d) / (2 * pi) - 1"
    by (simp add: field_simps)
  have "0 < (- pi - d) / (2 * pi)" using h by simp
  then have "1 \<le> \<lceil>(- pi - d) / (2 * pi)\<rceil>" by (simp add: Suc_le_eq)
  then have "nat \<lceil>(- pi - d) / (2 * pi) - 1\<rceil> < nat \<lceil>(- pi - d) / (2 * pi)\<rceil>" by simp
  then show "(d + 2 * pi, d) \<in> measure (\<lambda>d. nat \<lceil>(- pi - d) / (2 * pi)\<rceil>)"
    unfolding in_measure e .
qed

declare angle_down.simps [simp del] angle_up.simps [simp del]

definition angle_normalization :: "real \<Rightarrow> real" where
  "angle_normalization d = angle_up (angle_down d)"

definition normalize_at :: "nat \<Rightarrow> vec \<Rightarrow> vec" where
  \<comment> \<open>the two loops applied to component \<open>k\<close> of a residual vector\<close>
  "normalize_at k d = d[k := angle_normalization (d ! k)]"

subsection \<open>Eigen's Cholesky factor and inverse\<close>

text \<open>
  \<open>A.llt().matrixL()\<close> is the lower Cholesky factor of \<open>A\<close>, here computed row by row:
  \<open>L\<^sub>i\<^sub>j = (A\<^sub>i\<^sub>j - \<Sum>\<^sub>k\<^sub><\<^sub>j L\<^sub>i\<^sub>k L\<^sub>j\<^sub>k) / L\<^sub>j\<^sub>j\<close> below the diagonal and
  \<open>L\<^sub>i\<^sub>i = sqrt (A\<^sub>i\<^sub>i - \<Sum>\<^sub>k\<^sub><\<^sub>i L\<^sub>i\<^sub>k\<^sup>2)\<close> on it. It is Eigen's result for a positive definite
  \<open>A\<close>; for another \<open>A\<close> Eigen stops with an error flag that the code never reads.
\<close>

fun llt_row :: "vec \<Rightarrow> mat \<Rightarrow> vec \<Rightarrow> vec" where
  "llt_row a [] acc = acc @ [sqrt (a ! length acc - dot acc acc)]"
| "llt_row a (l # ls) acc =
     llt_row a ls (acc @ [(a ! length acc - dot acc (take (length acc) l)) / (l ! length acc)])"

definition llt_matrixL :: "mat \<Rightarrow> mat" where
  "llt_matrixL A =
     foldl (\<lambda>L a. L @ [(let r = llt_row a L [] in r @ replicate (length A - length r) 0)]) [] A"

text \<open>
  \<open>S.inverse()\<close> for the two sizes the code inverts, by the adjugate. A singular \<open>S\<close>
  gives infinities and NaN in the code and the zero matrix here.
\<close>

definition det2 :: "mat \<Rightarrow> real" where
  "det2 A = A ! 0 ! 0 * A ! 1 ! 1 - A ! 0 ! 1 * A ! 1 ! 0"

definition adjugate2 :: "mat \<Rightarrow> mat" where
  "adjugate2 A = [[A ! 1 ! 1, - (A ! 0 ! 1)], [- (A ! 1 ! 0), A ! 0 ! 0]]"

definition det3 :: "mat \<Rightarrow> real" where
  "det3 A =
     A ! 0 ! 0 * (A ! 1 ! 1 * A ! 2 ! 2 - A ! 1 ! 2 * A ! 2 ! 1)
     - A ! 0 ! 1 * (A ! 1 ! 0 * A ! 2 ! 2 - A ! 1 ! 2 * A ! 2 ! 0)
     + A ! 0 ! 2 * (A ! 1 ! 0 * A ! 2 ! 1 - A ! 1 ! 1 * A ! 2 ! 0)"

definition adjugate3 :: "mat \<Rightarrow> mat" where
  "adjugate3 A =
     [[A ! 1 ! 1 * A ! 2 ! 2 - A ! 1 ! 2 * A ! 2 ! 1,
       A ! 0 ! 2 * A ! 2 ! 1 - A ! 0 ! 1 * A ! 2 ! 2,
       A ! 0 ! 1 * A ! 1 ! 2 - A ! 0 ! 2 * A ! 1 ! 1],
      [A ! 1 ! 2 * A ! 2 ! 0 - A ! 1 ! 0 * A ! 2 ! 2,
       A ! 0 ! 0 * A ! 2 ! 2 - A ! 0 ! 2 * A ! 2 ! 0,
       A ! 0 ! 2 * A ! 1 ! 0 - A ! 0 ! 0 * A ! 1 ! 2],
      [A ! 1 ! 0 * A ! 2 ! 1 - A ! 1 ! 1 * A ! 2 ! 0,
       A ! 0 ! 1 * A ! 2 ! 0 - A ! 0 ! 0 * A ! 2 ! 1,
       A ! 0 ! 0 * A ! 1 ! 1 - A ! 0 ! 1 * A ! 1 ! 0]]"

definition mat_inverse :: "mat \<Rightarrow> mat" where
  "mat_inverse A =
     (if length A = 2 then scal_mat (1 / det2 A) (adjugate2 A)
      else scal_mat (1 / det3 A) (adjugate3 A))"

text \<open>\<open>atan2\<close> of the C library, on reals.\<close>

definition atan2 :: "real \<Rightarrow> real \<Rightarrow> real" where
  "atan2 b a =
     (if 0 < a then arctan (b / a)
      else if a < 0 then (if 0 \<le> b then arctan (b / a) + pi else arctan (b / a) - pi)
      else if 0 < b then pi / 2
      else if b < 0 then - (pi / 2)
      else 0)"

subsection \<open>The estimator's data\<close>

text \<open>
  Modelled from the spec: the headers that declare \<open>MeasurementPackage\<close> and the class
  \<open>UKF\<close> are not under \<open>src/\<close>. The members are the ones that \<open>ukf.cpp\<close> uses, with the
  types of the spec's data model: a time stamp in microseconds, a vector of raw values,
  and a sensor type that is lidar (\<open>LASER\<close> in the code), radar or unrecognized. The code
  compares \<open>sensor_type_\<close> with \<open>RADAR\<close> and with \<open>LASER\<close> and has a third path, with no
  branch taken, for any other value: \<open>OTHER\<close> is that value. Reading a raw value or a
  matrix entry beyond the size of its vector is undefined in Eigen; the model reads
  with \<open>!\<close> and is meant for measurements of three (radar) or two (lidar) raw values.
\<close>

datatype SensorType = LASER | RADAR | OTHER

record MeasurementPackage =
  timestamp :: int
  sensor_type :: SensorType
  raw_measurements :: vec

text \<open>
  The members that the member functions write. \<open>Xsig_pred\<close> is the list of the 15
  columns of the 5 by 15 matrix.
\<close>

record UKF =
  is_initialized :: bool
  x :: vec
  P :: mat
  Xsig_pred :: "vec list"
  time_us :: int
  weights :: vec
  nis_laser :: "real list"
  nis_radar :: "real list"

text \<open>The members that only the constructor writes (lines 11 to 80).\<close>

definition use_laser :: bool where "use_laser = True"
definition use_radar :: bool where "use_radar = True"
definition std_a :: real where "std_a = 2.8"
definition std_yawdd :: real where "std_yawdd = 1.1"
definition std_laspx :: real where "std_laspx = 0.15"
definition std_laspy :: real where "std_laspy = 0.15"
definition std_radr :: real where "std_radr = 0.3"
definition std_radphi :: real where "std_radphi = 0.03"
definition std_radrd :: real where "std_radrd = 0.3"
definition n_x :: nat where "n_x = 5"
definition n_aug :: nat where "n_aug = n_x + 2"
definition n_sig :: nat where "n_sig = 2 * n_aug + 1"

definition lambda :: real where
  \<comment> \<open>Modelled from the spec: the declaration of \<open>lambda_\<close> is in \<open>ukf.h\<close>, which is not
      under \<open>src/\<close>; the spec's \<open>weight\<^sub>0 = \<lambda>/(\<lambda>+L)\<close> is a quotient of reals, so
      \<open>lambda_\<close> is a \<open>double\<close>.\<close>
  "lambda = 3 - real n_aug"

text \<open>
  The constructor allocates \<open>x_\<close>, \<open>P_\<close>, \<open>weights_\<close> and \<open>Xsig_pred_\<close> without
  writing them and does not write \<open>time_us_\<close>: their contents are whatever the
  arguments say. The two histories start empty.
\<close>

definition UKF_new :: "vec \<Rightarrow> mat \<Rightarrow> vec list \<Rightarrow> int \<Rightarrow> vec \<Rightarrow> UKF" where
  "UKF_new x0 P0 X0 t0 w0 =
     \<lparr>is_initialized = False, x = x0, P = P0, Xsig_pred = X0, time_us = t0,
      weights = w0, nis_laser = [], nis_radar = []\<rparr>"

subsection \<open>\<open>UKF::Prediction\<close> (lines 143 to 245)\<close>

text \<open>
  The body of the loop over the augmented sigma points (lines 180 to 218), first the
  guarded position update of lines 194 to 202.
\<close>

definition ctrv_position :: "real \<Rightarrow> vec \<Rightarrow> real \<times> real" where
  "ctrv_position delta_t c =
     (let p_x = c ! 0; p_y = c ! 1; v = c ! 2; yaw = c ! 3; yawd = c ! 4
      in if \<bar>yawd\<bar> > 0.001
         then (p_x + v / yawd * (sin (yaw + yawd * delta_t) - sin yaw),
               p_y + v / yawd * (cos yaw - cos (yaw + yawd * delta_t)))
         else (p_x + v * delta_t * cos yaw,
               p_y + v * delta_t * sin yaw))"

definition ctrv :: "real \<Rightarrow> vec \<Rightarrow> vec" where
  "ctrv delta_t c =
     (let v = c ! 2; yaw = c ! 3; yawd = c ! 4; nu_a = c ! 5; nu_yawdd = c ! 6;
          px_p = fst (ctrv_position delta_t c);
          py_p = snd (ctrv_position delta_t c);
          v_p = v;
          yaw_p = yaw + yawd * delta_t;
          yawd_p = yawd;
          px_p = px_p + 0.5 * nu_a * delta_t * delta_t * cos yaw;
          py_p = py_p + 0.5 * nu_a * delta_t * delta_t * sin yaw;
          v_p = v_p + nu_a * delta_t;
          yaw_p = yaw_p + 0.5 * nu_yawdd * delta_t * delta_t;
          yawd_p = yawd_p + nu_yawdd * delta_t
      in [px_p, py_p, v_p, yaw_p, yawd_p])"

text \<open>
  The same position update with every division checked: \<open>None\<close> is a division by zero.
\<close>

definition checked_div :: "real \<Rightarrow> real \<Rightarrow> real option" where
  "checked_div a b = (if b = 0 then None else Some (a / b))"

definition ctrv_position_checked :: "real \<Rightarrow> vec \<Rightarrow> (real \<times> real) option" where
  "ctrv_position_checked delta_t c =
     (let p_x = c ! 0; p_y = c ! 1; v = c ! 2; yaw = c ! 3; yawd = c ! 4
      in if \<bar>yawd\<bar> > 0.001
         then (case checked_div v yawd of
                 None \<Rightarrow> None
               | Some q1 \<Rightarrow>
                  (case checked_div v yawd of
                     None \<Rightarrow> None
                   | Some q2 \<Rightarrow>
                       Some (p_x + q1 * (sin (yaw + yawd * delta_t) - sin yaw),
                             p_y + q2 * (cos yaw - cos (yaw + yawd * delta_t)))))
         else Some (p_x + v * delta_t * cos yaw,
                    p_y + v * delta_t * sin yaw))"

definition augmented_covariance :: "mat \<Rightarrow> mat" where
  \<comment> \<open>\<open>P_aug\<close>, lines 163 to 166\<close>
  "augmented_covariance Pm =
     map (\<lambda>r. r @ [0, 0]) Pm
     @ [replicate n_x 0 @ [std_a * std_a, 0],
        replicate n_x 0 @ [0, std_yawdd * std_yawdd]]"

definition augmented_sigma_points :: "vec \<Rightarrow> mat \<Rightarrow> vec list" where
  \<comment> \<open>the columns of \<open>Xsig_aug\<close>, lines 159 to 177\<close>
  "augmented_sigma_points xm Pm =
     (let x_aug = xm @ [0, 0];
          L = llt_matrixL (augmented_covariance Pm)
      in [x_aug]
         @ map (\<lambda>i. vec_add x_aug (scal_vec (sqrt (lambda + real n_aug)) (col L i))) [0..<n_aug]
         @ map (\<lambda>i. vec_sub x_aug (scal_vec (sqrt (lambda + real n_aug)) (col L i))) [0..<n_aug])"

definition set_weights :: vec where
  \<comment> \<open>lines 220 to 226\<close>
  "set_weights =
     (let weight_0 = lambda / (lambda + real n_aug)
      in weight_0 # map (\<lambda>i. 0.5 / (real n_aug + lambda)) [1..<2 * n_aug + 1])"

definition weighted_sum :: "vec \<Rightarrow> vec list \<Rightarrow> nat \<Rightarrow> vec" where
  \<comment> \<open>\<open>m.fill(0.0); for (i < n_sig_) m += weights_(i) * Z.col(i)\<close>\<close>
  "weighted_sum w Z n =
     foldl (\<lambda>m i. vec_add m (scal_vec (w ! i) (Z ! i))) (zero_vec n) [0..<n_sig]"

definition predicted_covariance :: "vec \<Rightarrow> vec list \<Rightarrow> vec \<Rightarrow> mat" where
  \<comment> \<open>lines 235 to 244\<close>
  "predicted_covariance w X xm =
     foldl (\<lambda>Pm i. let x_diff = normalize_at 3 (vec_sub (X ! i) xm)
                    in mat_add Pm (scal_mat (w ! i) (outer x_diff x_diff)))
       (zero_mat n_x n_x) [0..<n_sig]"

definition Prediction :: "real \<Rightarrow> UKF \<Rightarrow> UKF" where
  "Prediction delta_t s =
     (let Xsig_aug = augmented_sigma_points (x s) (P s);
          Xp = map (\<lambda>i. ctrv delta_t (Xsig_aug ! i)) [0..<n_sig];
          w = set_weights;
          xm = weighted_sum w Xp n_x;
          Pm = predicted_covariance w Xp xm
      in s\<lparr>Xsig_pred := Xp, weights := w, x := xm, P := Pm\<rparr>)"

subsection \<open>\<open>UKF::UpdateLidar\<close> (lines 247 to 321)\<close>

definition lidar_Zsig :: "UKF \<Rightarrow> vec list" where
  "lidar_Zsig s = map (\<lambda>i. [Xsig_pred s ! i ! 0, Xsig_pred s ! i ! 1]) [0..<n_sig]"

definition lidar_z_pred :: "UKF \<Rightarrow> vec" where
  "lidar_z_pred s = weighted_sum (weights s) (lidar_Zsig s) 2"

definition lidar_S :: "UKF \<Rightarrow> mat" where
  \<comment> \<open>lines 275 to 288\<close>
  "lidar_S s =
     (let S = foldl (\<lambda>S i. let z_diff = vec_sub (lidar_Zsig s ! i) (lidar_z_pred s)
                          in mat_add S (scal_mat (weights s ! i) (outer z_diff z_diff)))
                (zero_mat 2 2) [0..<n_sig];
          R = [[std_laspx * std_laspx, 0], [0, std_laspy * std_laspy]]
      in mat_add S R)"

definition lidar_Tc :: "UKF \<Rightarrow> mat" where
  \<comment> \<open>lines 294 to 307\<close>
  "lidar_Tc s =
     foldl (\<lambda>Tc i. let x_diff = normalize_at 3 (vec_sub (Xsig_pred s ! i) (x s));
                       z_diff = vec_sub (lidar_Zsig s ! i) (lidar_z_pred s)
                   in mat_add Tc (scal_mat (weights s ! i) (outer x_diff z_diff)))
       (zero_mat n_x 2) [0..<2 * n_aug + 1]"

definition lidar_residual :: "MeasurementPackage \<Rightarrow> UKF \<Rightarrow> vec" where
  \<comment> \<open>lines 290 to 292 and 312 to 313\<close>
  "lidar_residual mp s =
     (let z = [raw_measurements mp ! 0, raw_measurements mp ! 1]
      in vec_sub z (lidar_z_pred s))"

definition lidar_nis :: "MeasurementPackage \<Rightarrow> UKF \<Rightarrow> real" where
  \<comment> \<open>the argument of \<open>push_back\<close>, line 316\<close>
  "lidar_nis mp s =
     (let z_diff = lidar_residual mp s
      in dot (vec_mat z_diff (mat_inverse (lidar_S s))) z_diff)"

definition UpdateLidar :: "MeasurementPackage \<Rightarrow> UKF \<Rightarrow> UKF" where
  "UpdateLidar mp s =
     (let S = lidar_S s;
          K = mat_mul (lidar_Tc s) (mat_inverse S);
          z_diff = lidar_residual mp s
      in s\<lparr>nis_laser := nis_laser s @ [lidar_nis mp s],
           x := vec_add (x s) (mat_vec K z_diff),
           P := mat_sub (P s) (mat_mul (mat_mul K S) (mat_transpose K))\<rparr>)"

subsection \<open>\<open>UKF::UpdateRadar\<close> (lines 323 to 418)\<close>

definition radar_model :: "vec \<Rightarrow> vec" where
  \<comment> \<open>the column of \<open>Zsig\<close> for a column of \<open>Xsig_pred_\<close>, lines 341 to 352\<close>
  "radar_model c =
     (let p_x = c ! 0; p_y = c ! 1; v = c ! 2; yaw = c ! 3;
          v_x = cos yaw * v;
          v_y = sin yaw * v
      in [sqrt (p_x * p_x + p_y * p_y),
          atan2 p_y p_x,
          (p_x * v_x + p_y * v_y) / sqrt (p_x * p_x + p_y * p_y)])"

definition radar_model_checked :: "vec \<Rightarrow> vec option" where
  \<comment> \<open>the same with the division checked\<close>
  "radar_model_checked c =
     (let p_x = c ! 0; p_y = c ! 1; v = c ! 2; yaw = c ! 3;
          v_x = cos yaw * v;
          v_y = sin yaw * v
      in case checked_div (p_x * v_x + p_y * v_y) (sqrt (p_x * p_x + p_y * p_y)) of
           None \<Rightarrow> None
         | Some q \<Rightarrow> Some [sqrt (p_x * p_x + p_y * p_y), atan2 p_y p_x, q])"

definition radar_Zsig :: "UKF \<Rightarrow> vec list" where
  "radar_Zsig s = map (\<lambda>i. radar_model (Xsig_pred s ! i)) [0..<n_sig]"

definition radar_z_pred :: "UKF \<Rightarrow> vec" where
  "radar_z_pred s = weighted_sum (weights s) (radar_Zsig s) 3"

definition radar_S :: "UKF \<Rightarrow> mat" where
  \<comment> \<open>lines 358 to 377\<close>
  "radar_S s =
     (let S = foldl (\<lambda>S i. let z_diff = normalize_at 1 (vec_sub (radar_Zsig s ! i) (radar_z_pred s))
                          in mat_add S (scal_mat (weights s ! i) (outer z_diff z_diff)))
                (zero_mat 3 3) [0..<n_sig];
          R = [[std_radr * std_radr, 0, 0],
               [0, std_radphi * std_radphi, 0],
               [0, 0, std_radrd * std_radrd]]
      in mat_add S R)"

definition radar_Tc :: "UKF \<Rightarrow> mat" where
  \<comment> \<open>lines 383 to 400\<close>
  "radar_Tc s =
     foldl (\<lambda>Tc i. let z_diff = normalize_at 1 (vec_sub (radar_Zsig s ! i) (radar_z_pred s));
                       x_diff = normalize_at 3 (vec_sub (Xsig_pred s ! i) (x s))
                   in mat_add Tc (scal_mat (weights s ! i) (outer x_diff z_diff)))
       (zero_mat n_x 3) [0..<n_sig]"

definition radar_residual :: "MeasurementPackage \<Rightarrow> UKF \<Rightarrow> vec" where
  \<comment> \<open>lines 379 to 381 and 405 to 410\<close>
  "radar_residual mp s =
     (let z = [raw_measurements mp ! 0, raw_measurements mp ! 1, raw_measurements mp ! 2]
      in normalize_at 1 (vec_sub z (radar_z_pred s)))"

definition radar_nis :: "MeasurementPackage \<Rightarrow> UKF \<Rightarrow> real" where
  \<comment> \<open>the argument of \<open>push_back\<close>, line 413\<close>
  "radar_nis mp s =
     (let z_diff = radar_residual mp s
      in dot (vec_mat z_diff (mat_inverse (radar_S s))) z_diff)"

definition UpdateRadar :: "MeasurementPackage \<Rightarrow> UKF \<Rightarrow> UKF" where
  "UpdateRadar mp s =
     (let S = radar_S s;
          K = mat_mul (radar_Tc s) (mat_inverse S);
          z_diff = radar_residual mp s
      in s\<lparr>nis_radar := nis_radar s @ [radar_nis mp s],
           x := vec_add (x s) (mat_vec K z_diff),
           P := mat_sub (P s) (mat_mul (mat_mul K S) (mat_transpose K))\<rparr>)"

subsection \<open>\<open>UKF::ProcessMeasurement\<close> (lines 84 to 141)\<close>

definition initialize :: "MeasurementPackage \<Rightarrow> UKF \<Rightarrow> UKF" where
  \<comment> \<open>the body of \<open>if (!is_initialized_)\<close>, lines 90 to 122\<close>
  "initialize mp s =
     (let s1 =
        (if sensor_type mp = RADAR then
           (let rho = raw_measurements mp ! 0;
                phi = raw_measurements mp ! 1;
                rhodot = raw_measurements mp ! 2;
                vx = rhodot * cos phi;
                vy = rhodot * sin phi
            in s\<lparr>x := [rho * cos phi, rho * sin phi, sqrt (vx * vx + vy * vy), 0, 0],
                 P := [[std_radr * std_radr, 0, 0, 0, 0],
                       [0, std_radr * std_radr, 0, 0, 0],
                       [0, 0, 1, 0, 0],
                       [0, 0, 0, std_radphi * std_radphi, 0],
                       [0, 0, 0, 0, std_radphi * std_radphi]]\<rparr>)
         else if sensor_type mp = LASER then
           (let lidar_px = raw_measurements mp ! 0;
                lidar_py = raw_measurements mp ! 1
            in s\<lparr>x := [lidar_px, lidar_py, 0, 0, 0],
                 P := [[std_laspx * std_laspx, 0, 0, 0, 0],
                       [0, std_laspy * std_laspy, 0, 0, 0],
                       [0, 0, 1, 0, 0],
                       [0, 0, 0, 1, 0],
                       [0, 0, 0, 0, 1]]\<rparr>)
         else s)
      in s1\<lparr>time_us := timestamp mp, is_initialized := True\<rparr>)"

definition ProcessMeasurement :: "MeasurementPackage \<Rightarrow> UKF \<Rightarrow> UKF" where
  "ProcessMeasurement mp s =
     (let s1 = (if \<not> is_initialized s then initialize mp s else s);
          dt = real_of_int (timestamp mp - time_us s1) / 1000000.0;
          s2 = s1\<lparr>time_us := timestamp mp\<rparr>;
          s3 = Prediction dt s2
      in if sensor_type mp = RADAR then UpdateRadar mp s3
         else if sensor_type mp = LASER then UpdateLidar mp s3
         else s3)"

text \<open>Successive calls of \<open>ProcessMeasurement\<close> on one estimator, in the order of the list.\<close>

definition ProcessMeasurements :: "MeasurementPackage list \<Rightarrow> UKF \<Rightarrow> UKF" where
  "ProcessMeasurements mps s = foldl (\<lambda>t mp. ProcessMeasurement mp t) s mps"

subsection \<open>\<open>UKF::printNIS\<close> (lines 420 to 427)\<close>

text \<open>
  What the function writes, line by line; a number is kept as the number. Reading a
  \<open>std::vector\<close> beyond its size is undefined: the result is \<open>None\<close> then. The counter
  of the loop is an \<open>int\<close> in the code and a natural number here, which is the same for
  a history of fewer than \<open>2\<^sup>3\<^sup>1\<close> values.
\<close>

datatype out_line = Header string | Row nat real real

function printNIS_loop :: "UKF \<Rightarrow> nat \<Rightarrow> out_line list option" where
  "printNIS_loop s i =
     (if i < length (nis_radar s) then
        (if i < length (nis_laser s) then
           map_option ((#) (Row i (nis_radar s ! i) (nis_laser s ! i))) (printNIS_loop s (Suc i))
         else None)
      else Some [])"
  by pat_completeness auto
termination
  by (relation "measure (\<lambda>(s, i). length (nis_radar s) - i)") auto

declare printNIS_loop.simps [simp del]

definition printNIS :: "UKF \<Rightarrow> out_line list option" where
  "printNIS s =
     map_option ((#) (Header ([CHR 0x0A, CHR 0x0A] @ ''Num,Radar,Lidar''))) (printNIS_loop s 0)"

subsection \<open>Positive definite matrices\<close>

definition pos_def :: "mat \<Rightarrow> bool" where
  "pos_def A =
     (\<forall>v. length v = length A \<and> v \<noteq> zero_vec (length A) \<longrightarrow> 0 < dot v (mat_vec A v))"

definition is_mat :: "nat \<Rightarrow> nat \<Rightarrow> mat \<Rightarrow> bool" where
  \<comment> \<open>\<open>A\<close> has \<open>r\<close> rows of \<open>c\<close> entries\<close>
  "is_mat r c A = (length A = r \<and> (\<forall>row \<in> set A. length row = c))"

subsection \<open>Concrete inputs\<close>

text \<open>
  An estimator as the constructor leaves it, with zeros for the contents it does not
  write, and first measurements of each kind.
\<close>

abbreviation fresh_UKF :: UKF where
  "fresh_UKF \<equiv>
     UKF_new (replicate 5 0) (replicate 5 (replicate 5 0)) (replicate 15 (replicate 5 0)) 0
       (replicate 15 0)"

abbreviation lidar_1_2 :: MeasurementPackage where
  "lidar_1_2 \<equiv> \<lparr>timestamp = 1000000, sensor_type = LASER, raw_measurements = [1, 2]\<rparr>"

abbreviation radar_origin :: MeasurementPackage where
  "radar_origin \<equiv> \<lparr>timestamp = 1000000, sensor_type = RADAR, raw_measurements = [0, 0, 0]\<rparr>"

abbreviation other_1_2 :: MeasurementPackage where
  "other_1_2 \<equiv> \<lparr>timestamp = 1000000, sensor_type = OTHER, raw_measurements = [1, 2]\<rparr>"

text \<open>
  An estimator whose 15 predicted sigma points all are \<open>(1, 0, 0, 0, 0)\<close>, and an
  initialized estimator, with one lidar update behind it, that moves at speed 3 along
  the first axis with a positive definite covariance in which the heading is uncertain
  and correlated with the position; a lidar measurement of the origin one second later.
\<close>

abbreviation still_UKF :: UKF where
  "still_UKF \<equiv> fresh_UKF\<lparr>Xsig_pred := replicate 15 [1, 0, 0, 0, 0], weights := set_weights\<rparr>"

abbreviation turning_UKF :: UKF where
  "turning_UKF \<equiv>
     fresh_UKF\<lparr>is_initialized := True,
       x := [0, 0, 3, 0, 0],
       P := [[1 / 3, 0, 0, pi / 6, 0],
             [0, 1 / 3, 0, pi / 6, 0],
             [0, 0, 1 / 3, 0, 0],
             [pi / 6, pi / 6, 0, pi * pi / 4, 0],
             [0, 0, 0, 0, pi * pi / 3]],
       nis_laser := [0]\<rparr>"

abbreviation lidar_0_0 :: MeasurementPackage where
  "lidar_0_0 \<equiv> \<lparr>timestamp = 1000000, sensor_type = LASER, raw_measurements = [0, 0]\<rparr>"

text \<open>
  The sigma points of a state \<open>(p, q, v, 0, 0)\<close> with the covariance
  \<open>diag(sx\<^sup>2, sy\<^sup>2, 1, sp\<^sup>2, sp\<^sup>2)\<close>, which a prediction over the interval 0 leaves where
  they are; their lidar measurements for \<open>v = 0\<close>; and the radar measurements of such
  points on the first axis, with range \<open>q\<close> and bearing \<open>al\<close> for the two points beside
  the axis.
\<close>

abbreviation start_points :: "real \<Rightarrow> real \<Rightarrow> real \<Rightarrow> real \<Rightarrow> real \<Rightarrow> real \<Rightarrow> vec list" where
  "start_points p q v sx sy sp \<equiv>
    [[p, q, v, 0, 0], [p + sqrt 3 * sx, q, v, 0, 0],
     [p, q + sqrt 3 * sy, v, 0, 0], [p, q, v + sqrt 3, 0, 0],
     [p, q, v, sqrt 3 * sp, 0], [p, q, v, 0, sqrt 3 * sp], [p, q, v, 0, 0],
     [p, q, v, 0, 0], [p - sqrt 3 * sx, q, v, 0, 0],
     [p, q - sqrt 3 * sy, v, 0, 0], [p, q, v - sqrt 3, 0, 0],
     [p, q, v, - (sqrt 3 * sp), 0], [p, q, v, 0, - (sqrt 3 * sp)], [p, q, v, 0, 0],
     [p, q, v, 0, 0]]"

abbreviation lidar_points :: "real \<Rightarrow> real \<Rightarrow> vec list" where
  "lidar_points a b \<equiv>
     [[a, b], [a + sqrt 3 * std_laspx, b], [a, b + sqrt 3 * std_laspy], [a, b], [a, b],
      [a, b], [a, b], [a, b], [a - sqrt 3 * std_laspx, b], [a, b - sqrt 3 * std_laspy],
      [a, b], [a, b], [a, b], [a, b], [a, b]]"

abbreviation axis_points :: "real \<Rightarrow> real \<Rightarrow> real \<Rightarrow> real \<Rightarrow> vec list" where
  "axis_points c s q al \<equiv>
     [[c, 0, 0], [c + s, 0, 0], [q, al, 0], [c, 0, sqrt 3], [c, 0, 0], [c, 0, 0],
      [c, 0, 0], [c, 0, 0], [c - s, 0, 0], [q, - al, 0], [c, 0, - sqrt 3], [c, 0, 0],
      [c, 0, 0], [c, 0, 0], [c, 0, 0]]"

abbreviation radar_5_0_0 :: MeasurementPackage where
  "radar_5_0_0 \<equiv> \<lparr>timestamp = 1000000, sensor_type = RADAR, raw_measurements = [5, 0, 0]\<rparr>"

section \<open>Properties\<close>

subsection \<open>The configuration and the members each function leaves alone\<close>

lemma n_aug_value: "n_aug = 7"
  by (simp add: n_aug_def n_x_def)

lemma n_sig_value: "n_sig = 15"
  by (simp add: n_sig_def n_aug_def n_x_def)

lemma lambda_value: "lambda = - 4"
  by (simp add: lambda_def n_aug_value)

lemma set_weights_value: "set_weights = (- 4 / 3) # replicate 14 (1 / 6)"
  by (simp add: set_weights_def lambda_value n_aug_value map_replicate_const)

lemma Prediction_fields [simp]:
  "weights (Prediction delta_t s) = set_weights"
  "nis_laser (Prediction delta_t s) = nis_laser s"
  "nis_radar (Prediction delta_t s) = nis_radar s"
  "is_initialized (Prediction delta_t s) = is_initialized s"
  "time_us (Prediction delta_t s) = time_us s"
  by (simp_all add: Prediction_def Let_def)

lemma UpdateLidar_fields [simp]:
  "nis_laser (UpdateLidar mp s) = nis_laser s @ [lidar_nis mp s]"
  "nis_radar (UpdateLidar mp s) = nis_radar s"
  "weights (UpdateLidar mp s) = weights s"
  "Xsig_pred (UpdateLidar mp s) = Xsig_pred s"
  "is_initialized (UpdateLidar mp s) = is_initialized s"
  "time_us (UpdateLidar mp s) = time_us s"
  by (simp_all add: UpdateLidar_def Let_def)

lemma UpdateRadar_fields [simp]:
  "nis_radar (UpdateRadar mp s) = nis_radar s @ [radar_nis mp s]"
  "nis_laser (UpdateRadar mp s) = nis_laser s"
  "weights (UpdateRadar mp s) = weights s"
  "Xsig_pred (UpdateRadar mp s) = Xsig_pred s"
  "is_initialized (UpdateRadar mp s) = is_initialized s"
  "time_us (UpdateRadar mp s) = time_us s"
  by (simp_all add: UpdateRadar_def Let_def)

lemma initialize_fields [simp]:
  "nis_laser (initialize mp s) = nis_laser s"
  "nis_radar (initialize mp s) = nis_radar s"
  "weights (initialize mp s) = weights s"
  "Xsig_pred (initialize mp s) = Xsig_pred s"
  "is_initialized (initialize mp s) = True"
  "time_us (initialize mp s) = timestamp mp"
  by (simp_all add: initialize_def Let_def)

lemma initialize_time_idem: "(initialize mp s)\<lparr>time_us := timestamp mp\<rparr> = initialize mp s"
  by (simp add: initialize_def Let_def)

subsection \<open>The weights\<close>

text \<open>
  C4. With the augmented dimension 7 and \<open>\<lambda> = 3 - 7 = -4\<close> of the constructor,
  \<open>Prediction\<close> sets the first weight to \<open>\<lambda>/(\<lambda>+7)\<close>, which is negative, and each of the
  other 14 weights to \<open>1/(2(\<lambda>+7))\<close>; the 15 weights add up to 1 in exact arithmetic.
\<close>

theorem weights_sum_to_one:
  "n_aug = 7 \<and> lambda = 3 - 7 \<and>
   weights (Prediction delta_t s)
     = (lambda / (lambda + real n_aug)) # replicate 14 (1 / (2 * (lambda + real n_aug))) \<and>
   lambda / (lambda + real n_aug) < 0 \<and>
   length (weights (Prediction delta_t s)) = 15 \<and>
   sum_list (weights (Prediction delta_t s)) = 1"
  by (simp add: set_weights_value lambda_value n_aug_value sum_list_replicate)

subsection \<open>Angle normalization\<close>

lemma angle_down_fix: "d \<le> pi \<Longrightarrow> angle_down d = d"
  by (subst angle_down.simps) simp

lemma angle_up_fix: "- pi \<le> d \<Longrightarrow> angle_up d = d"
  by (subst angle_up.simps) simp

lemma angle_down_range: "pi < d \<Longrightarrow> - pi < angle_down d \<and> angle_down d \<le> pi"
proof (induction d rule: angle_down.induct)
  case (1 d)
  have s: "angle_down d = angle_down (d - 2 * pi)"
    using "1.prems" by (subst angle_down.simps) simp
  show ?case
  proof (cases "pi < d - 2 * pi")
    case True
    with "1.IH" "1.prems" s show ?thesis by simp
  next
    case False
    then have "angle_down (d - 2 * pi) = d - 2 * pi" by (simp add: angle_down_fix)
    with s False "1.prems" show ?thesis by simp
  qed
qed

lemma angle_up_range: "d < - pi \<Longrightarrow> - pi \<le> angle_up d \<and> angle_up d < pi"
proof (induction d rule: angle_up.induct)
  case (1 d)
  have s: "angle_up d = angle_up (d + 2 * pi)"
    using "1.prems" by (subst angle_up.simps) simp
  show ?case
  proof (cases "d + 2 * pi < - pi")
    case True
    with "1.IH" "1.prems" s show ?thesis by simp
  next
    case False
    then have "angle_up (d + 2 * pi) = d + 2 * pi" by (simp add: angle_up_fix)
    with s False "1.prems" show ?thesis by simp
  qed
qed

lemma angle_down_shift: "\<exists>k::nat. angle_down d = d - 2 * pi * real k"
proof (induction d rule: angle_down.induct)
  case (1 d)
  show ?case
  proof (cases "pi < d")
    case True
    from "1.IH" [OF True] obtain k :: nat
      where k: "angle_down (d - 2 * pi) = d - 2 * pi - 2 * pi * real k" by blast
    have "angle_down d = angle_down (d - 2 * pi)"
      using True by (subst angle_down.simps) simp
    with k have "angle_down d = d - 2 * pi * real (Suc k)" by (simp add: algebra_simps)
    then show ?thesis by blast
  next
    case False
    then have "angle_down d = d - 2 * pi * real (0::nat)" by (simp add: angle_down_fix)
    then show ?thesis by blast
  qed
qed

lemma angle_up_shift: "\<exists>k::nat. angle_up d = d + 2 * pi * real k"
proof (induction d rule: angle_up.induct)
  case (1 d)
  show ?case
  proof (cases "d < - pi")
    case True
    from "1.IH" [OF True] obtain k :: nat
      where k: "angle_up (d + 2 * pi) = d + 2 * pi + 2 * pi * real k" by blast
    have "angle_up d = angle_up (d + 2 * pi)"
      using True by (subst angle_up.simps) simp
    with k have "angle_up d = d + 2 * pi * real (Suc k)" by (simp add: algebra_simps)
    then show ?thesis by blast
  next
    case False
    then have "angle_up d = d + 2 * pi * real (0::nat)" by (simp add: angle_up_fix)
    then show ?thesis by blast
  qed
qed

lemma angle_normalization_bounds:
  "- pi \<le> angle_normalization d \<and> angle_normalization d \<le> pi"
proof (cases "pi < d")
  case True
  then have r: "- pi < angle_down d \<and> angle_down d \<le> pi" by (rule angle_down_range)
  then have "angle_up (angle_down d) = angle_down d" by (simp add: angle_up_fix)
  with r show ?thesis by (simp add: angle_normalization_def)
next
  case False
  then have e: "angle_down d = d" by (simp add: angle_down_fix)
  show ?thesis
  proof (cases "d < - pi")
    case True
    with angle_up_range [OF True] e show ?thesis by (simp add: angle_normalization_def)
  next
    case b: False
    then have "angle_up d = d" by (simp add: angle_up_fix)
    with e b False show ?thesis by (simp add: angle_normalization_def)
  qed
qed

lemma angle_normalization_shift:
  "\<exists>k::int. angle_normalization d = d + 2 * pi * real_of_int k"
proof -
  obtain i :: nat where i: "angle_down d = d - 2 * pi * real i"
    using angle_down_shift by blast
  obtain j :: nat where j: "angle_up (angle_down d) = angle_down d + 2 * pi * real j"
    using angle_up_shift by blast
  have "angle_normalization d = d + 2 * pi * real_of_int (int j - int i)"
    using i j by (simp add: angle_normalization_def algebra_simps)
  then show ?thesis by blast
qed

lemma angle_normalization_four: "angle_normalization 4 = 4 - 2 * pi"
proof -
  have a: "angle_down 4 = angle_down (4 - 2 * pi)"
    using pi_less_4 by (subst angle_down.simps) simp
  have "4 - 2 * pi \<le> pi" using pi_ge_two by simp
  then have b: "angle_down (4 - 2 * pi) = 4 - 2 * pi" by (rule angle_down_fix)
  have "- pi \<le> 4 - 2 * pi" using pi_less_4 by simp
  then have "angle_up (4 - 2 * pi) = 4 - 2 * pi" by (rule angle_up_fix)
  with a b show ?thesis by (simp add: angle_normalization_def)
qed

text \<open>
  Bounds on \<open>\<pi>\<close> from the Maclaurin polynomial of the sine of degree 14, for the decimal
  value of \<open>4 - 2\<pi>\<close>.
\<close>

lemma sum_below_15:
  fixes f :: "nat \<Rightarrow> real"
  shows "(\<Sum>m<15. f m) = f 0 + f 1 + f 2 + f 3 + f 4 + f 5 + f 6 + f 7 + f 8 + f 9 + f 10 + f 11 + f 12 + f 13 + f 14"
  by (simp add: eval_nat_numeral)

lemma sin_coeff_values:
  "sin_coeff 0 = 0" "sin_coeff 1 = 1" "sin_coeff 2 = 0" "sin_coeff 3 = - 1 / 6"
  "sin_coeff 4 = 0" "sin_coeff 5 = 1 / 120" "sin_coeff 6 = 0" "sin_coeff 7 = - 1 / 5040"
  "sin_coeff 8 = 0" "sin_coeff 9 = 1 / 362880" "sin_coeff 10 = 0" "sin_coeff 11 = - 1 / 39916800"
  "sin_coeff 12 = 0" "sin_coeff 13 = 1 / 6227020800" "sin_coeff 14 = 0"
  by (simp_all add: sin_coeff_def fact_numeral)

lemma sin_polynomial_15:
  fixes t :: real
  shows "(\<Sum>m<15. sin_coeff m * t ^ m)
      = t - t^3 / 6 + t^5 / 120 - t^7 / 5040 + t^9 / 362880 - t^11 / 39916800 + t^13 / 6227020800"
  unfolding sum_below_15 sin_coeff_values by simp

lemma inverse_fact_15: "inverse (fact 15) = (1 / 1307674368000 :: real)"
  by (simp add: fact_numeral)

lemma sin_maclaurin_15:
  fixes t :: real
  shows "\<bar>sin t - (t - t^3 / 6 + t^5 / 120 - t^7 / 5040 + t^9 / 362880 - t^11 / 39916800 + t^13 / 6227020800)\<bar>
         \<le> 1 / 1307674368000 * \<bar>t\<bar> ^ 15"
  using Maclaurin_sin_bound [of t 15] unfolding sin_polynomial_15 inverse_fact_15 .

lemma sin_polynomial_lower:
  "0 < (6283 / 2000 :: real) - (6283 / 2000)^3 / 6 + (6283 / 2000)^5 / 120 - (6283 / 2000)^7 / 5040 + (6283 / 2000)^9 / 362880
     - (6283 / 2000)^11 / 39916800 + (6283 / 2000)^13 / 6227020800 - 1 / 1307674368000 * (6283 / 2000) ^ 15"
  by (simp add: power_divide)

lemma sin_polynomial_upper:
  "(3142 / 1000 :: real) - (3142 / 1000)^3 / 6 + (3142 / 1000)^5 / 120 - (3142 / 1000)^7 / 5040 + (3142 / 1000)^9 / 362880
     - (3142 / 1000)^11 / 39916800 + (3142 / 1000)^13 / 6227020800 + 1 / 1307674368000 * (3142 / 1000) ^ 15 < 0"
  by (simp add: power_divide)

lemma sin_below_pi_pos: "0 < sin (6283 / 2000 :: real)"
proof -
  have "\<bar>(6283 / 2000 :: real)\<bar> = 6283 / 2000" by simp
  with sin_maclaurin_15 [of "6283 / 2000"] sin_polynomial_lower show ?thesis
    by (simp only: abs_le_iff) linarith
qed

lemma sin_above_pi_neg: "sin (3142 / 1000 :: real) < 0"
proof -
  have "\<bar>(3142 / 1000 :: real)\<bar> = 3142 / 1000" by simp
  with sin_maclaurin_15 [of "3142 / 1000"] sin_polynomial_upper show ?thesis
    by (simp only: abs_le_iff) linarith
qed

lemma pi_gt_31415: "6283 / 2000 < pi"
proof (rule ccontr)
  assume "\<not> 6283 / 2000 < pi"
  then have a: "pi \<le> 6283 / 2000" by simp
  have b: "(6283 / 2000 :: real) < 2 * pi" using pi_ge_two by simp
  have "sin (6283 / 2000 :: real) \<le> 0"
  proof (cases "pi = 6283 / 2000")
    case True
    have "sin pi \<le> 0" by simp
    then show ?thesis unfolding True .
  next
    case False
    with a have "pi < 6283 / 2000" by simp
    from sin_lt_zero [OF this b] show ?thesis by simp
  qed
  with sin_below_pi_pos show False by simp
qed

lemma pi_lt_3142: "pi < 3142 / 1000"
proof (rule ccontr)
  assume "\<not> pi < 3142 / 1000"
  then have a: "3142 / 1000 \<le> pi" by simp
  have "0 \<le> sin (3142 / 1000 :: real)"
    by (rule sin_ge_zero) (use a in simp_all)
  with sin_above_pi_neg show False by simp
qed

text \<open>
  C6, as the code has it. Both loops are total functions over the reals (their
  termination is proved with the definitions), the result differs from the input by an
  integer multiple of \<open>2\<pi>\<close> and lies in the closed interval \<open>[-\<pi>, \<pi>]\<close>, and the input
  4 gives \<open>4 - 2\<pi>\<close>, which is between -2.284 and -2.283. Over \<open>double\<close> a subtraction
  of \<open>2\<pi>\<close> from a very large value can leave it unchanged; that is outside this model.
\<close>

theorem angle_normalization_closed_interval:
  "(\<exists>k::int. angle_normalization d = d + 2 * pi * real_of_int k)
   \<and> - pi \<le> angle_normalization d \<and> angle_normalization d \<le> pi
   \<and> angle_normalization 4 = 4 - 2 * pi
   \<and> - 2.284 < angle_normalization 4 \<and> angle_normalization 4 < - 2.283"
proof -
  have "- 2.284 < 4 - 2 * pi" "4 - 2 * pi < - 2.283"
    using pi_gt_31415 pi_lt_3142 by simp_all
  then show ?thesis
    using angle_normalization_shift [of d] angle_normalization_bounds [of d]
    by (simp add: angle_normalization_four)
qed

text \<open>
  C6, as the claim states it, fails at the input \<open>-\<pi>\<close>: the second loop tests
  \<open>d < -\<pi>\<close>, so \<open>-\<pi>\<close> is returned as it is, and it is not in \<open>(-\<pi>, \<pi>]\<close>.
\<close>

theorem angle_normalization_minus_pi_counterexample:
  "\<not> (- pi < angle_normalization (- pi) \<and> angle_normalization (- pi) \<le> pi)"
  by (simp add: angle_normalization_def angle_down_fix angle_up_fix)

subsection \<open>Facts for the evaluation on explicit inputs\<close>

lemma angle_normalization_zero [simp]: "angle_normalization 0 = 0"
  by (simp add: angle_normalization_def angle_down_fix angle_up_fix)

lemma upt_15: "[0..<15] = [0, 1, 2, 3, 4, 5, 6, 7, 8, 9, 10, 11, 12, 13, 14]"
  by (simp add: upt_conv_Cons)

lemma replicate_15: "replicate 15 a = [a, a, a, a, a, a, a, a, a, a, a, a, a, a, a]"
  by (simp add: eval_nat_numeral)

lemma std_abs: "\<bar>std_a\<bar> = std_a" "\<bar>std_yawdd\<bar> = std_yawdd"
  by (simp_all add: std_a_def std_yawdd_def)

lemma sqrt3_sq: "sqrt 3 * (sqrt 3 * y) = 3 * y"
  by (simp add: mult.assoc [symmetric])

lemma std_las_abs: "\<bar>std_laspx\<bar> = std_laspx" "\<bar>std_laspy\<bar> = std_laspy"
  by (simp_all add: std_laspx_def std_laspy_def)

lemma sqrt3_le_pi: "sqrt 3 \<le> pi"
proof -
  have "sqrt 3 \<le> 2" by (rule real_le_lsqrt) simp_all
  then show ?thesis using pi_ge_two by linarith
qed

lemma sqrt3_guard: "1 < sqrt 3 * 1000"
proof -
  have "1 \<le> sqrt 3" by simp
  then show ?thesis by linarith
qed

lemma angle_normalization_sqrt3:
  "angle_normalization (sqrt 3) = sqrt 3" "angle_normalization (- sqrt 3) = - sqrt 3"
proof -
  have a: "sqrt 3 \<le> pi" by (rule sqrt3_le_pi)
  have b: "- pi \<le> sqrt 3" by (rule order_trans [of _ 0]) simp_all
  have c: "- sqrt 3 \<le> pi" by (rule order_trans [of _ 0]) simp_all
  have d: "- pi \<le> - sqrt 3" using a by simp
  show "angle_normalization (sqrt 3) = sqrt 3"
    by (simp add: angle_normalization_def angle_down_fix [OF a] angle_up_fix [OF b])
  show "angle_normalization (- sqrt 3) = - sqrt 3"
    by (simp add: angle_normalization_def angle_down_fix [OF c] angle_up_fix [OF d])
qed

lemma angle_normalization_small:
  "- pi \<le> d \<Longrightarrow> d \<le> pi \<Longrightarrow> angle_normalization d = d"
  by (simp add: angle_normalization_def angle_down_fix angle_up_fix)

lemma arctan_in_range: "- pi \<le> arctan y" "arctan y \<le> pi"
proof -
  have "- (pi / 2) < arctan y" "arctan y < pi / 2" by (rule arctan_lbound, rule arctan_ubound)
  then show "- pi \<le> arctan y" "arctan y \<le> pi" using pi_gt_zero by linarith+
qed

lemma std_rad_pos: "0 < std_radr" "0 < std_radphi" "0 < std_radrd"
  by (simp_all add: std_radr_def std_radphi_def std_radrd_def)

lemma sqrt3_radphi_le_pi: "sqrt 3 * std_radphi \<le> pi"
proof -
  have "sqrt 3 * std_radphi \<le> sqrt 3 * 1"
    by (rule mult_left_mono) (simp_all add: std_radphi_def)
  then show ?thesis using sqrt3_le_pi by linarith
qed

lemma sqrt3_radr_lt_5: "sqrt 3 * std_radr < 5"
proof -
  have "sqrt 3 \<le> 2" by (rule real_le_lsqrt) simp_all
  then show ?thesis by (simp add: std_radr_def)
qed

lemma radar_speed: "sqrt (r * cos f * (r * cos f) + r * sin f * (r * sin f)) = \<bar>r\<bar>"
proof -
  have "r * cos f * (r * cos f) + r * sin f * (r * sin f)
      = r * r * (cos f * cos f + sin f * sin f)"
    by (simp only: distrib_left mult_ac)
  also have "cos f * cos f + sin f * sin f = 1"
    using sin_cos_squared_add2 [of f] by (simp add: power2_eq_square)
  finally show ?thesis by simp
qed

lemma Prediction_x: "x (Prediction delta_t s) = weighted_sum set_weights (Xsig_pred (Prediction delta_t s)) n_x"
  by (simp add: Prediction_def Let_def)

lemma Prediction_P: "P (Prediction delta_t s) = predicted_covariance set_weights (Xsig_pred (Prediction delta_t s)) (x (Prediction delta_t s))"
  by (simp add: Prediction_def Let_def)

subsection \<open>The first call of \<open>ProcessMeasurement\<close>\<close>

lemma ProcessMeasurement_uninitialized:
  "\<not> is_initialized s \<Longrightarrow>
   ProcessMeasurement mp s =
     (let s3 = Prediction 0 (initialize mp s)
      in if sensor_type mp = RADAR then UpdateRadar mp s3
         else if sensor_type mp = LASER then UpdateLidar mp s3
         else s3)"
  by (simp add: ProcessMeasurement_def Let_def initialize_time_idem)

text \<open>
  A prediction over the interval 0 from a state \<open>(p, q, v, 0, 0)\<close> with a diagonal
  covariance: the Cholesky factor, the sigma points, which stay where they are, and the
  mean and the covariance, which are the ones before.
\<close>

lemma diag_augmented_covariance:
  "augmented_covariance
     [[sx * sx, 0, 0, 0, 0],
      [0, sy * sy, 0, 0, 0],
      [0, 0, 1, 0, 0],
      [0, 0, 0, sp * sp, 0],
      [0, 0, 0, 0, sp * sp]]
   = [[sx * sx, 0, 0, 0, 0, 0, 0],
      [0, sy * sy, 0, 0, 0, 0, 0],
      [0, 0, 1, 0, 0, 0, 0],
      [0, 0, 0, sp * sp, 0, 0, 0],
      [0, 0, 0, 0, sp * sp, 0, 0],
      [0, 0, 0, 0, 0, std_a * std_a, 0],
      [0, 0, 0, 0, 0, 0, std_yawdd * std_yawdd]]"
  by (simp add: augmented_covariance_def n_x_def eval_nat_numeral)

lemma diag_cholesky:
  assumes "0 < sx" "0 < sy" "0 < sp"
  shows "llt_matrixL
     [[sx * sx, 0, 0, 0, 0, 0, 0],
      [0, sy * sy, 0, 0, 0, 0, 0],
      [0, 0, 1, 0, 0, 0, 0],
      [0, 0, 0, sp * sp, 0, 0, 0],
      [0, 0, 0, 0, sp * sp, 0, 0],
      [0, 0, 0, 0, 0, std_a * std_a, 0],
      [0, 0, 0, 0, 0, 0, std_yawdd * std_yawdd]]
   = [[sx, 0, 0, 0, 0, 0, 0],
      [0, sy, 0, 0, 0, 0, 0],
      [0, 0, 1, 0, 0, 0, 0],
      [0, 0, 0, sp, 0, 0, 0],
      [0, 0, 0, 0, sp, 0, 0],
      [0, 0, 0, 0, 0, std_a, 0],
      [0, 0, 0, 0, 0, 0, std_yawdd]]"
  using assms by (simp add: llt_matrixL_def dot_def std_abs Let_def)

lemma diag_sigma:
  assumes "0 < sx" "0 < sy" "0 < sp"
  shows "augmented_sigma_points [p, q, v, 0, 0]
     [[sx * sx, 0, 0, 0, 0],
      [0, sy * sy, 0, 0, 0],
      [0, 0, 1, 0, 0],
      [0, 0, 0, sp * sp, 0],
      [0, 0, 0, 0, sp * sp]] =
    [[p, q, v, 0, 0, 0, 0], [p + sqrt 3 * sx, q, v, 0, 0, 0, 0],
     [p, q + sqrt 3 * sy, v, 0, 0, 0, 0], [p, q, v + sqrt 3, 0, 0, 0, 0],
     [p, q, v, sqrt 3 * sp, 0, 0, 0], [p, q, v, 0, sqrt 3 * sp, 0, 0],
     [p, q, v, 0, 0, sqrt 3 * std_a, 0],
     [p, q, v, 0, 0, 0, sqrt 3 * std_yawdd],
     [p - sqrt 3 * sx, q, v, 0, 0, 0, 0],
     [p, q - sqrt 3 * sy, v, 0, 0, 0, 0],
     [p, q, v - sqrt 3, 0, 0, 0, 0], [p, q, v, - (sqrt 3 * sp), 0, 0, 0],
     [p, q, v, 0, - (sqrt 3 * sp), 0, 0], [p, q, v, 0, 0, - (sqrt 3 * std_a), 0],
     [p, q, v, 0, 0, 0, - (sqrt 3 * std_yawdd)]]"
  unfolding augmented_sigma_points_def diag_augmented_covariance diag_cholesky [OF assms]
  by (simp add: Let_def n_aug_value lambda_value col_def vec_add_def vec_sub_def scal_vec_def
      upt_conv_Cons)

lemma diag_pred:
  assumes "x s = [p, q, v, 0, 0]"
    and "P s = [[sx * sx, 0, 0, 0, 0],
      [0, sy * sy, 0, 0, 0],
      [0, 0, 1, 0, 0],
      [0, 0, 0, sp * sp, 0],
      [0, 0, 0, 0, sp * sp]]"
    and "0 < sx" "0 < sy" "0 < sp"
  shows "Xsig_pred (Prediction 0 s) = start_points p q v sx sy sp"
  unfolding Prediction_def assms(1,2) diag_sigma [OF assms(3-5)] Let_def
  by (simp add: n_sig_value upt_15 ctrv_def ctrv_position_def Let_def)

lemma diag_mean:
  "weighted_sum set_weights (start_points p q v sx sy sp) n_x = [p, q, v, 0, 0]"
  by (simp add: weighted_sum_def n_sig_value n_x_def upt_15 set_weights_value zero_vec_def vec_add_def
      scal_vec_def replicate_15 eval_nat_numeral add_divide_distrib diff_divide_distrib)

lemma diag_cov:
  assumes "0 < sp" "sqrt 3 * sp \<le> pi"
  shows "predicted_covariance set_weights (start_points p q v sx sy sp) [p, q, v, 0, 0] =
    [[sx * sx, 0, 0, 0, 0],
     [0, sy * sy, 0, 0, 0], [0, 0, 1, 0, 0], [0, 0, 0, sp * sp, 0],
     [0, 0, 0, 0, sp * sp]]"
proof -
  have a: "angle_normalization (sqrt 3 * sp) = sqrt 3 * sp"
    using assms by (intro angle_normalization_small) (auto intro: order_trans [of _ 0])
  have b: "angle_normalization (- (sqrt 3 * sp)) = - (sqrt 3 * sp)"
    using assms by (intro angle_normalization_small) (auto intro: order_trans [of _ 0])
  have c: "sqrt 3 * sp * (sqrt 3 * sp) = 3 * (sp * sp)"
    by (simp add: algebra_simps sqrt3_sq)
  show ?thesis
  by (simp add: predicted_covariance_def n_sig_value n_x_def upt_15 set_weights_value replicate_15
      zero_mat_def vec_sub_def mat_add_def vec_add_def scal_mat_def scal_vec_def outer_def
      normalize_at_def a b c Let_def eval_nat_numeral sqrt3_sq)
qed

lemma Prediction_0_diag:
  assumes "x s = [p, q, v, 0, 0]"
    and "P s = [[sx * sx, 0, 0, 0, 0],
      [0, sy * sy, 0, 0, 0],
      [0, 0, 1, 0, 0],
      [0, 0, 0, sp * sp, 0],
      [0, 0, 0, 0, sp * sp]]"
    and "0 < sx" "0 < sy" "0 < sp" "sqrt 3 * sp \<le> pi"
  shows "Prediction 0 s = s\<lparr>Xsig_pred := start_points p q v sx sy sp, weights := set_weights\<rparr>"
proof -
  have X: "Xsig_pred (Prediction 0 s) = start_points p q v sx sy sp"
    using assms(1-5) by (rule diag_pred)
  have xs: "x (Prediction 0 s) = x s"
    unfolding Prediction_x X assms(1) by (rule diag_mean)
  have Ps: "P (Prediction 0 s) = P s"
    unfolding Prediction_P X xs unfolding assms(1,2) using assms(5,6) by (rule diag_cov)
  have "Prediction 0 s = s\<lparr>Xsig_pred := Xsig_pred (Prediction 0 s), weights := set_weights,
      x := x (Prediction 0 s), P := P (Prediction 0 s)\<rparr>"
    by (simp add: Prediction_def Let_def)
  then show ?thesis unfolding X xs Ps by simp
qed

text \<open>
  The first call on a lidar measurement \<open>(a, b)\<close>: the lidar update finds the residual 0
  and halves the two position variances.
\<close>

lemma first_lidar_Zsig:
  assumes "Xsig_pred s = start_points a b 0 std_laspx std_laspy 1"
  shows "lidar_Zsig s = lidar_points a b"
  unfolding lidar_Zsig_def assms by (simp add: n_sig_value upt_15)

lemma first_lidar_z_pred:
  assumes "lidar_Zsig s = lidar_points a b"
    and "weights s = set_weights"
  shows "lidar_z_pred s = [a, b]"
  unfolding lidar_z_pred_def assms
  by (simp add: weighted_sum_def n_sig_value upt_15 set_weights_value zero_vec_def vec_add_def
      scal_vec_def replicate_15 eval_nat_numeral add_divide_distrib diff_divide_distrib)

lemma first_lidar_S:
  assumes "lidar_Zsig s = lidar_points a b"
    and "weights s = set_weights"
    and "lidar_z_pred s = [a, b]"
  shows "lidar_S s = [[2 * (std_laspx * std_laspx), 0], [0, 2 * (std_laspy * std_laspy)]]"
  unfolding lidar_S_def assms
  by (simp add: n_sig_value upt_15 set_weights_value replicate_15 zero_mat_def vec_sub_def
      mat_add_def vec_add_def scal_mat_def scal_vec_def outer_def Let_def eval_nat_numeral
      algebra_simps sqrt3_sq)

lemma first_lidar_Tc:
  assumes "Xsig_pred s = start_points a b 0 std_laspx std_laspy 1"
    and "x s = [a, b, 0, 0, 0]"
    and "lidar_Zsig s = lidar_points a b"
    and "weights s = set_weights"
    and "lidar_z_pred s = [a, b]"
  shows "lidar_Tc s =
    [[std_laspx * std_laspx, 0], [0, std_laspy * std_laspy], [0, 0], [0, 0], [0, 0]]"
  unfolding lidar_Tc_def assms
  by (simp add: n_sig_value n_aug_value n_x_def upt_15 set_weights_value replicate_15
      zero_mat_def vec_sub_def mat_add_def vec_add_def scal_mat_def scal_vec_def outer_def
      Let_def eval_nat_numeral normalize_at_def angle_normalization_sqrt3
      algebra_simps sqrt3_sq)

lemma first_lidar_update:
  assumes X: "Xsig_pred s = start_points a b 0 std_laspx std_laspy 1"
    and xs: "x s = [a, b, 0, 0, 0]"
    and Ps: "P s = [[std_laspx * std_laspx, 0, 0, 0, 0],
      [0, std_laspy * std_laspy, 0, 0, 0],
      [0, 0, 1, 0, 0],
      [0, 0, 0, 1, 0],
      [0, 0, 0, 0, 1]]"
    and w: "weights s = set_weights"
    and raw: "raw_measurements mp = [a, b]"
  shows "UpdateLidar mp s =
     s\<lparr>nis_laser := nis_laser s @ [0],
       P := [[std_laspx * std_laspx / 2, 0, 0, 0, 0],
        [0, std_laspy * std_laspy / 2, 0, 0, 0],
        [0, 0, 1, 0, 0],
        [0, 0, 0, 1, 0],
        [0, 0, 0, 0, 1]]\<rparr>"
proof -
  note Z = first_lidar_Zsig [OF X]
  note z = first_lidar_z_pred [OF Z w]
  note S = first_lidar_S [OF Z w z]
  note T = first_lidar_Tc [OF X xs Z w z]
  have r: "lidar_residual mp s = [0, 0]"
    by (simp add: lidar_residual_def Let_def z vec_sub_def raw)
  have pos: "std_laspx \<noteq> 0" "std_laspy \<noteq> 0" by (simp_all add: std_laspx_def std_laspy_def)
  have Si: "mat_inverse [[2 * (std_laspx * std_laspx), 0], [0, 2 * (std_laspy * std_laspy)]]
      = [[1 / (2 * (std_laspx * std_laspx)), 0], [0, 1 / (2 * (std_laspy * std_laspy))]]"
    using pos by (simp add: mat_inverse_def det2_def adjugate2_def scal_mat_def scal_vec_def)
  have K: "mat_mul (lidar_Tc s)
        (mat_inverse [[2 * (std_laspx * std_laspx), 0], [0, 2 * (std_laspy * std_laspy)]])
      = [[1 / 2, 0], [0, 1 / 2], [0, 0], [0, 0], [0, 0]]"
    unfolding T Si using pos
    by (simp add: mat_mul_def vec_mat_def mat_transpose_def col_def dot_def upt_conv_Cons)
  have nis: "lidar_nis mp s = 0"
    unfolding lidar_nis_def Let_def r S Si
    by (simp add: vec_mat_def mat_transpose_def col_def dot_def upt_conv_Cons)
  have a: "vec_add (x s) (mat_vec (mat_mul (lidar_Tc s) (mat_inverse (lidar_S s)))
      (lidar_residual mp s)) = x s"
    unfolding S K r xs
    by (simp add: mat_vec_def dot_def vec_add_def)
  have b: "mat_sub (P s) (mat_mul (mat_mul (mat_mul (lidar_Tc s) (mat_inverse (lidar_S s)))
      (lidar_S s)) (mat_transpose (mat_mul (lidar_Tc s) (mat_inverse (lidar_S s)))))
     = [[std_laspx * std_laspx / 2, 0, 0, 0, 0],
        [0, std_laspy * std_laspy / 2, 0, 0, 0],
        [0, 0, 1, 0, 0],
        [0, 0, 0, 1, 0],
        [0, 0, 0, 0, 1]]"
    unfolding S K Ps
    by (simp add: mat_mul_def vec_mat_def mat_transpose_def col_def dot_def upt_conv_Cons
        mat_sub_def vec_sub_def)
  show ?thesis
    unfolding UpdateLidar_def Let_def a b nis by simp
qed

lemma first_lidar_call:
  assumes "\<not> is_initialized s" and "sensor_type mp = LASER" and "raw_measurements mp = [a, b]"
  shows "ProcessMeasurement mp s =
     s\<lparr>is_initialized := True, time_us := timestamp mp,
       Xsig_pred := start_points a b 0 std_laspx std_laspy 1,
       weights := set_weights,
       x := [a, b, 0, 0, 0],
       P := [[std_laspx * std_laspx / 2, 0, 0, 0, 0],
        [0, std_laspy * std_laspy / 2, 0, 0, 0],
        [0, 0, 1, 0, 0],
        [0, 0, 0, 1, 0],
        [0, 0, 0, 0, 1]],
       nis_laser := nis_laser s @ [0]\<rparr>"
proof -
  let ?i = "initialize mp s"
  have pm: "ProcessMeasurement mp s = UpdateLidar mp (Prediction 0 ?i)"
    using ProcessMeasurement_uninitialized [OF assms(1), of mp] assms(2) by simp
  have xi: "x ?i = [a, b, 0, 0, 0]" by (simp add: initialize_def Let_def assms)
  have Pi: "P ?i = [[std_laspx * std_laspx, 0, 0, 0, 0],
      [0, std_laspy * std_laspy, 0, 0, 0],
      [0, 0, 1, 0, 0],
      [0, 0, 0, 1 * 1, 0],
      [0, 0, 0, 0, 1 * 1]]" by (simp add: initialize_def Let_def assms)
  have pr: "Prediction 0 ?i = ?i\<lparr>Xsig_pred := start_points a b 0 std_laspx std_laspy 1,
      weights := set_weights\<rparr>"
    using xi Pi by (rule Prediction_0_diag) (simp_all add: std_laspx_def std_laspy_def sqrt3_le_pi)
  have up: "UpdateLidar mp (Prediction 0 ?i) =
     (Prediction 0 ?i)\<lparr>nis_laser := nis_laser (Prediction 0 ?i) @ [0],
       P := [[std_laspx * std_laspx / 2, 0, 0, 0, 0],
        [0, std_laspy * std_laspy / 2, 0, 0, 0],
        [0, 0, 1, 0, 0],
        [0, 0, 0, 1, 0],
        [0, 0, 0, 0, 1]]\<rparr>"
    by (rule first_lidar_update) (simp_all add: pr xi Pi assms)
  show ?thesis
    unfolding pm up unfolding pr
    by (cases s) (simp add: initialize_def Let_def assms)
qed

text \<open>
  The first call on a radar measurement: the state that the radar update starts from,
  and the update for a measurement on the first axis with range rate 0, where the
  innovation covariance is diagonal.
\<close>

lemma first_radar_prediction:
  assumes "\<not> is_initialized s" and "sensor_type mp = RADAR"
    and "raw_measurements mp = [rho, phi, rhodot]"
  shows "Prediction 0 (initialize mp s) =
     s\<lparr>is_initialized := True, time_us := timestamp mp,
       x := [rho * cos phi, rho * sin phi, \<bar>rhodot\<bar>, 0, 0],
       P := [[std_radr * std_radr, 0, 0, 0, 0],
             [0, std_radr * std_radr, 0, 0, 0],
             [0, 0, 1, 0, 0],
             [0, 0, 0, std_radphi * std_radphi, 0],
             [0, 0, 0, 0, std_radphi * std_radphi]],
       Xsig_pred := start_points (rho * cos phi) (rho * sin phi) \<bar>rhodot\<bar>
                      std_radr std_radr std_radphi,
       weights := set_weights\<rparr>"
proof -
  let ?i = "initialize mp s"
  have xi: "x ?i = [rho * cos phi, rho * sin phi, \<bar>rhodot\<bar>, 0, 0]"
    by (simp add: initialize_def Let_def assms radar_speed)
  have Pi: "P ?i = [[std_radr * std_radr, 0, 0, 0, 0],
             [0, std_radr * std_radr, 0, 0, 0],
             [0, 0, 1, 0, 0],
             [0, 0, 0, std_radphi * std_radphi, 0],
             [0, 0, 0, 0, std_radphi * std_radphi]]"
    by (simp add: initialize_def Let_def assms)
  have pr: "Prediction 0 ?i = ?i\<lparr>Xsig_pred := start_points (rho * cos phi) (rho * sin phi) \<bar>rhodot\<bar>
                      std_radr std_radr std_radphi,
      weights := set_weights\<rparr>"
    using xi Pi by (rule Prediction_0_diag) (simp_all add: std_rad_pos sqrt3_radphi_le_pi)
  show ?thesis
    unfolding pr
    by (cases s) (simp add: initialize_def Let_def assms radar_speed)
qed

lemma axis_Zsig:
  assumes X: "Xsig_pred s = start_points c 0 0 sx sy sp"
    and c: "0 < c" "sqrt 3 * sx < c" "0 \<le> sx"
  shows "radar_Zsig s =
     axis_points c (sqrt 3 * sx) (sqrt (c * c + sqrt 3 * sy * (sqrt 3 * sy)))
       (arctan (sqrt 3 * sy / c))"
proof -
  have p: "0 < c + sqrt 3 * sx" "0 < c - sqrt 3 * sx"
    using c by (simp_all add: add_pos_nonneg)
  show ?thesis
    unfolding radar_Zsig_def X using c p
    by (simp add: n_sig_value upt_15 radar_model_def Let_def atan2_def arctan_minus)
qed

lemma axis_z_pred:
  assumes "radar_Zsig s = axis_points c t q al"
    and "weights s = set_weights"
  shows "radar_z_pred s = [(2 * c + q) / 3, 0, 0]"
  unfolding radar_z_pred_def assms
  by (simp add: weighted_sum_def n_sig_value upt_15 set_weights_value zero_vec_def vec_add_def
      scal_vec_def replicate_15 eval_nat_numeral add_divide_distrib diff_divide_distrib)

lemma axis_S:
  assumes "radar_Zsig s = axis_points c t q al"
    and "weights s = set_weights"
    and "radar_z_pred s = [(2 * c + q) / 3, 0, 0]"
    and al: "- pi \<le> al" "al \<le> pi"
  shows "radar_S s =
     [[t * t / 3 + 2 * ((q - c) * (q - c)) / 9 + std_radr * std_radr, 0, 0],
      [0, al * al / 3 + std_radphi * std_radphi, 0],
      [0, 0, 1 + std_radrd * std_radrd]]"
proof -
  have a: "angle_normalization al = al" using al by (rule angle_normalization_small)
  have b: "angle_normalization (- al) = - al"
    using al by (intro angle_normalization_small) simp_all
  show ?thesis
    unfolding radar_S_def assms(1-3)
    by (simp add: n_sig_value upt_15 set_weights_value replicate_15 zero_mat_def vec_sub_def
      mat_add_def vec_add_def scal_mat_def scal_vec_def outer_def Let_def eval_nat_numeral
      normalize_at_def a b)
     (simp add: field_simps)
qed

lemma axis_Tc:
  assumes "Xsig_pred s = start_points c 0 0 sx sy sp"
    and "x s = [c, 0, 0, 0, 0]"
    and "radar_Zsig s = axis_points c (sqrt 3 * sx) q al"
    and "weights s = set_weights"
    and "radar_z_pred s = [(2 * c + q) / 3, 0, 0]"
    and al: "- pi \<le> al" "al \<le> pi"
    and sp: "0 \<le> sp" "sqrt 3 * sp \<le> pi"
  shows "radar_Tc s =
     [[sx * sx, 0, 0], [0, sqrt 3 * sy * al / 3, 0], [0, 0, 1], [0, 0, 0], [0, 0, 0]]"
proof -
  have a: "angle_normalization al = al" using al by (rule angle_normalization_small)
  have b: "angle_normalization (- al) = - al"
    using al by (intro angle_normalization_small) simp_all
  have c: "angle_normalization (sqrt 3 * sp) = sqrt 3 * sp"
    using sp by (intro angle_normalization_small) (auto intro: order_trans [of _ 0])
  have d: "angle_normalization (- (sqrt 3 * sp)) = - (sqrt 3 * sp)"
    using sp by (intro angle_normalization_small) (auto intro: order_trans [of _ 0])
  have e: "sqrt 3 * sx * (sqrt 3 * sx) = 3 * (sx * sx)"
    by (simp add: algebra_simps sqrt3_sq)
  show ?thesis
    unfolding radar_Tc_def assms(1-5)
    by (simp add: n_sig_value n_x_def upt_15 set_weights_value replicate_15 zero_mat_def
      vec_sub_def mat_add_def vec_add_def scal_mat_def scal_vec_def outer_def Let_def
      eval_nat_numeral normalize_at_def a b c d)
     (simp add: field_simps e)
qed

lemma diagonal_radar_update:
  assumes S: "radar_S s = [[A, 0, 0], [0, B, 0], [0, 0, C]]"
    and T: "radar_Tc s = [[t0, 0, 0], [0, t1, 0], [0, 0, t2], [0, 0, 0], [0, 0, 0]]"
    and r: "radar_residual mp s = [r0, r1, r2]"
    and xs: "x s = [x0, x1, x2, x3, x4]"
    and Ps: "P s = [[p0, 0, 0, 0, 0], [0, p1, 0, 0, 0], [0, 0, p2, 0, 0], [0, 0, 0, p3, 0],
        [0, 0, 0, 0, p4]]"
    and nz: "A \<noteq> 0" "B \<noteq> 0" "C \<noteq> 0"
  shows "UpdateRadar mp s =
     s\<lparr>nis_radar := nis_radar s @ [r0 * r0 / A + r1 * r1 / B + r2 * r2 / C],
       x := [x0 + t0 * r0 / A, x1 + t1 * r1 / B, x2 + t2 * r2 / C, x3, x4],
       P := [[p0 - t0 * t0 / A, 0, 0, 0, 0], [0, p1 - t1 * t1 / B, 0, 0, 0],
             [0, 0, p2 - t2 * t2 / C, 0, 0], [0, 0, 0, p3, 0], [0, 0, 0, 0, p4]]\<rparr>"
proof -
  have Si: "mat_inverse [[A, 0, 0], [0, B, 0], [0, 0, C]]
      = [[1 / A, 0, 0], [0, 1 / B, 0], [0, 0, 1 / C]]"
    using nz by (simp add: mat_inverse_def det3_def adjugate3_def scal_mat_def scal_vec_def)
  have K: "mat_mul (radar_Tc s) (mat_inverse [[A, 0, 0], [0, B, 0], [0, 0, C]])
      = [[t0 / A, 0, 0], [0, t1 / B, 0], [0, 0, t2 / C], [0, 0, 0], [0, 0, 0]]"
    unfolding T Si
    by (simp add: mat_mul_def vec_mat_def mat_transpose_def col_def dot_def upt_conv_Cons)
  have nis: "radar_nis mp s = r0 * r0 / A + r1 * r1 / B + r2 * r2 / C"
    unfolding radar_nis_def Let_def r S Si
    by (simp add: vec_mat_def mat_transpose_def col_def dot_def upt_conv_Cons)
  have a: "vec_add (x s) (mat_vec (mat_mul (radar_Tc s) (mat_inverse (radar_S s)))
      (radar_residual mp s)) = [x0 + t0 * r0 / A, x1 + t1 * r1 / B, x2 + t2 * r2 / C, x3, x4]"
    unfolding S K r xs
    by (simp add: mat_vec_def dot_def vec_add_def)
  have b: "mat_sub (P s) (mat_mul (mat_mul (mat_mul (radar_Tc s) (mat_inverse (radar_S s)))
      (radar_S s)) (mat_transpose (mat_mul (radar_Tc s) (mat_inverse (radar_S s)))))
     = [[p0 - t0 * t0 / A, 0, 0, 0, 0], [0, p1 - t1 * t1 / B, 0, 0, 0],
             [0, 0, p2 - t2 * t2 / C, 0, 0], [0, 0, 0, p3, 0], [0, 0, 0, 0, p4]]"
    unfolding S K Ps using nz
    by (simp add: mat_mul_def vec_mat_def mat_transpose_def col_def dot_def upt_conv_Cons
        mat_sub_def vec_sub_def)
  show ?thesis
    unfolding UpdateRadar_def Let_def a b nis by simp
qed

lemma axis_radar_update:
  assumes X: "Xsig_pred s = start_points c 0 0 sx sy sp"
    and xs: "x s = [c, 0, 0, 0, 0]"
    and Ps: "P s = [[sx * sx, 0, 0, 0, 0], [0, sy * sy, 0, 0, 0], [0, 0, 1, 0, 0],
        [0, 0, 0, sp * sp, 0], [0, 0, 0, 0, sp * sp]]"
    and w: "weights s = set_weights"
    and raw: "raw_measurements mp = [rho, 0, rhodot]"
    and c: "0 < c" "sqrt 3 * sx < c" "0 \<le> sx"
    and sp: "0 \<le> sp" "sqrt 3 * sp \<le> pi"
    and q: "q = sqrt (c * c + sqrt 3 * sy * (sqrt 3 * sy))"
    and al: "al = arctan (sqrt 3 * sy / c)"
    and A: "A = sx * sx + 2 * ((q - c) * (q - c)) / 9 + std_radr * std_radr"
    and B: "B = al * al / 3 + std_radphi * std_radphi"
  shows "UpdateRadar mp s =
     s\<lparr>nis_radar := nis_radar s @
         [(rho - (2 * c + q) / 3) * (rho - (2 * c + q) / 3) / A
           + rhodot * rhodot / (1 + std_radrd * std_radrd)],
       x := [c + sx * sx * (rho - (2 * c + q) / 3) / A, 0,
             rhodot / (1 + std_radrd * std_radrd), 0, 0],
       P := [[sx * sx - sx * sx * (sx * sx) / A, 0, 0, 0, 0],
             [0, sy * sy - sqrt 3 * sy * al / 3 * (sqrt 3 * sy * al / 3) / B, 0, 0, 0],
             [0, 0, 1 - 1 / (1 + std_radrd * std_radrd), 0, 0],
             [0, 0, 0, sp * sp, 0], [0, 0, 0, 0, sp * sp]]\<rparr>"
proof -
  have alr: "- pi \<le> al" "al \<le> pi" unfolding al by (rule arctan_in_range)+
  have Z: "radar_Zsig s = axis_points c (sqrt 3 * sx) q al"
    unfolding q al using X c by (rule axis_Zsig)
  note z = axis_z_pred [OF Z w]
  have e: "sqrt 3 * sx * (sqrt 3 * sx) / 3 = sx * sx"
    by (simp add: algebra_simps sqrt3_sq)
  have S: "radar_S s = [[A, 0, 0], [0, B, 0], [0, 0, 1 + std_radrd * std_radrd]]"
    unfolding axis_S [OF Z w z alr] A B e by simp
  note T = axis_Tc [OF X xs Z w z alr sp]
  have r: "radar_residual mp s = [rho - (2 * c + q) / 3, 0, rhodot]"
    by (simp add: radar_residual_def Let_def z raw vec_sub_def normalize_at_def)
  have pr: "0 < std_radr * std_radr" "0 < std_radphi * std_radphi"
    by (simp_all add: std_rad_pos)
  have "0 \<le> sx * sx + 2 * ((q - c) * (q - c)) / 9" by simp
  then have A0: "A \<noteq> 0" unfolding A using pr(1) by linarith
  have "0 \<le> al * al / 3" by simp
  then have B0: "B \<noteq> 0" unfolding B using pr(2) by linarith
  have "0 \<le> std_radrd * std_radrd" by simp
  then have C0: "1 + std_radrd * std_radrd \<noteq> 0" by linarith
  show ?thesis
    using diagonal_radar_update [OF S T r xs Ps A0 B0 C0] by simp
qed

lemma first_radar_axis_call:
  assumes "\<not> is_initialized s" and "sensor_type mp = RADAR"
    and "raw_measurements mp = [rho, 0, 0]" and "sqrt 3 * std_radr < rho"
  shows "ProcessMeasurement mp s =
     (let q = sqrt (rho * rho + sqrt 3 * std_radr * (sqrt 3 * std_radr));
          al = arctan (sqrt 3 * std_radr / rho);
          A = std_radr * std_radr + 2 * ((q - rho) * (q - rho)) / 9 + std_radr * std_radr;
          B = al * al / 3 + std_radphi * std_radphi
      in s\<lparr>is_initialized := True, time_us := timestamp mp,
           Xsig_pred := start_points rho 0 0 std_radr std_radr std_radphi,
           weights := set_weights,
           nis_radar := nis_radar s @
             [(rho - (2 * rho + q) / 3) * (rho - (2 * rho + q) / 3) / A],
           x := [rho + std_radr * std_radr * (rho - (2 * rho + q) / 3) / A, 0, 0, 0, 0],
           P := [[std_radr * std_radr - std_radr * std_radr * (std_radr * std_radr) / A,
                  0, 0, 0, 0],
                 [0, std_radr * std_radr
                    - sqrt 3 * std_radr * al / 3 * (sqrt 3 * std_radr * al / 3) / B, 0, 0, 0],
                 [0, 0, 1 - 1 / (1 + std_radrd * std_radrd), 0, 0],
                 [0, 0, 0, std_radphi * std_radphi, 0],
                 [0, 0, 0, 0, std_radphi * std_radphi]]\<rparr>)"
proof -
  let ?t = "Prediction 0 (initialize mp s)"
  define q where "q = sqrt (rho * rho + sqrt 3 * std_radr * (sqrt 3 * std_radr))"
  define al where "al = arctan (sqrt 3 * std_radr / rho)"
  define A where "A = std_radr * std_radr + 2 * ((q - rho) * (q - rho)) / 9 + std_radr * std_radr"
  define B where "B = al * al / 3 + std_radphi * std_radphi"
  have pm: "ProcessMeasurement mp s = UpdateRadar mp ?t"
    using ProcessMeasurement_uninitialized [OF assms(1), of mp] assms(2) by simp
  note pr = first_radar_prediction [OF assms(1-3)]
  have X: "Xsig_pred ?t = start_points rho 0 0 std_radr std_radr std_radphi"
    unfolding pr by simp
  have xs: "x ?t = [rho, 0, 0, 0, 0]" unfolding pr by simp
  have Ps: "P ?t = [[std_radr * std_radr, 0, 0, 0, 0], [0, std_radr * std_radr, 0, 0, 0],
      [0, 0, 1, 0, 0], [0, 0, 0, std_radphi * std_radphi, 0],
      [0, 0, 0, 0, std_radphi * std_radphi]]"
    unfolding pr by simp
  have w: "weights ?t = set_weights" by simp
  have r0: "0 < rho"
  proof -
    have "0 \<le> sqrt 3 * std_radr" by (simp add: std_rad_pos less_imp_le)
    then show ?thesis using assms(4) by linarith
  qed
  have u: "UpdateRadar mp ?t =
     ?t\<lparr>nis_radar := nis_radar ?t @
         [(rho - (2 * rho + q) / 3) * (rho - (2 * rho + q) / 3) / A
           + 0 * 0 / (1 + std_radrd * std_radrd)],
       x := [rho + std_radr * std_radr * (rho - (2 * rho + q) / 3) / A, 0,
             0 / (1 + std_radrd * std_radrd), 0, 0],
       P := [[std_radr * std_radr - std_radr * std_radr * (std_radr * std_radr) / A, 0, 0, 0, 0],
             [0, std_radr * std_radr - sqrt 3 * std_radr * al / 3 * (sqrt 3 * std_radr * al / 3) / B,
              0, 0, 0],
             [0, 0, 1 - 1 / (1 + std_radrd * std_radrd), 0, 0],
             [0, 0, 0, std_radphi * std_radphi, 0], [0, 0, 0, 0, std_radphi * std_radphi]]\<rparr>"
    by (rule axis_radar_update [OF X xs Ps w assms(3) r0 assms(4) _ _ sqrt3_radphi_le_pi
        q_def al_def A_def B_def]) (simp_all add: std_rad_pos less_imp_le)
  show ?thesis
    unfolding pm u unfolding pr Let_def q_def [symmetric] al_def [symmetric]
      A_def [symmetric] B_def [symmetric] by simp
qed

lemma first_radar_range: "sqrt (5 * 5 + sqrt 3 * std_radr * (sqrt 3 * std_radr)) = sqrt (2527 / 100)"
proof -
  have "sqrt 3 * std_radr * (sqrt 3 * std_radr) = 3 * (std_radr * std_radr)"
    by (simp add: algebra_simps sqrt3_sq)
  then show ?thesis by (simp add: std_radr_def)
qed

lemma first_radar_call_5:
  assumes "\<not> is_initialized s" and "sensor_type mp = RADAR"
    and "raw_measurements mp = [5, 0, 0]"
  shows "x (ProcessMeasurement mp s) =
     [5 - 3 / 100 * (sqrt (2527 / 100) - 5)
           / (18 / 100 + 2 * ((sqrt (2527 / 100) - 5) * (sqrt (2527 / 100) - 5)) / 9),
      0, 0, 0, 0]"
proof -
  let ?q = "sqrt (2527 / 100)"
  have u: "x (ProcessMeasurement mp s) =
      [5 + std_radr * std_radr * (5 - (2 * 5 + ?q) / 3)
         / (std_radr * std_radr + 2 * ((?q - 5) * (?q - 5)) / 9 + std_radr * std_radr),
       0, 0, 0, 0]"
    unfolding first_radar_axis_call [OF assms sqrt3_radr_lt_5] Let_def first_radar_range
    by simp
  have n: "std_radr * std_radr * (5 - (2 * 5 + ?q) / 3) = - (3 / 100 * (?q - 5))"
    by (simp add: std_radr_def algebra_simps)
  have d: "std_radr * std_radr + 2 * ((?q - 5) * (?q - 5)) / 9 + std_radr * std_radr
      = 18 / 100 + 2 * ((?q - 5) * (?q - 5)) / 9"
    by (simp add: std_radr_def)
  show ?thesis unfolding u n d by simp
qed

lemma first_radar_call_5_bounds:
  "49955 / 10000 < 5 - 3 / 100 * (sqrt (2527 / 100) - 5)
           / (18 / 100 + 2 * ((sqrt (2527 / 100) - 5) * (sqrt (2527 / 100) - 5)) / 9)"
  "5 - 3 / 100 * (sqrt (2527 / 100) - 5)
           / (18 / 100 + 2 * ((sqrt (2527 / 100) - 5) * (sqrt (2527 / 100) - 5)) / 9)
     < 49956 / 10000"
proof -
  define d where "d = sqrt (2527 / 100) - 5"
  define e where "e = 18 / 100 + 2 * (d * d) / 9"
  have l: "50269 / 10000 < sqrt (2527 / 100)"
    by (rule real_less_rsqrt) (simp add: power2_eq_square)
  have h: "sqrt (2527 / 100) < 5027 / 1000"
    by (rule real_less_lsqrt) (simp_all add: power2_eq_square)
  have d: "269 / 10000 < d" "d < 27 / 1000" using l h by (simp_all add: d_def)
  have d0: "0 \<le> d" using d(1) by linarith
  have "d * d \<le> 27 / 1000 * (27 / 1000)"
    using d0 d(2) by (intro mult_mono) simp_all
  then have eu: "e \<le> 180162 / 1000000" unfolding e_def by simp
  have "0 \<le> 2 * (d * d) / 9" by simp
  then have el: "18 / 100 \<le> e" unfolding e_def by linarith
  then have p: "0 < e" by linarith
  have "3 / 100 * d < 45 / 10000 * e" using d(2) el by linarith
  then have "3 / 100 * d / e < 45 / 10000" using p by (simp add: pos_divide_less_eq)
  then show "49955 / 10000 < 5 - 3 / 100 * (sqrt (2527 / 100) - 5)
           / (18 / 100 + 2 * ((sqrt (2527 / 100) - 5) * (sqrt (2527 / 100) - 5)) / 9)"
    unfolding e_def d_def by simp
  have "44 / 10000 * e < 3 / 100 * d" using d(1) eu by linarith
  then have "44 / 10000 < 3 / 100 * d / e" using p by (simp add: pos_less_divide_eq)
  then show "5 - 3 / 100 * (sqrt (2527 / 100) - 5)
           / (18 / 100 + 2 * ((sqrt (2527 / 100) - 5) * (sqrt (2527 / 100) - 5)) / 9)
     < 49956 / 10000"
    unfolding e_def d_def by simp
qed




text \<open>
  C2, as the code has it. \<open>ProcessMeasurement\<close> returns nothing and raises nothing. A
  first measurement of a sensor type that is neither \<open>LASER\<close> nor \<open>RADAR\<close> leaves \<open>x\<close> and
  \<open>P\<close> as they are, records the timestamp, marks the estimator as initialized and runs
  \<open>Prediction\<close> over the interval 0; no update runs and no history grows.
\<close>

theorem unrecognized_sensor_first_call:
  "\<not> is_initialized s \<Longrightarrow> sensor_type mp \<noteq> LASER \<Longrightarrow> sensor_type mp \<noteq> RADAR \<Longrightarrow>
   ProcessMeasurement mp s = Prediction 0 (s\<lparr>time_us := timestamp mp, is_initialized := True\<rparr>)
   \<and> is_initialized (ProcessMeasurement mp s)
   \<and> nis_laser (ProcessMeasurement mp s) = nis_laser s
   \<and> nis_radar (ProcessMeasurement mp s) = nis_radar s"
  by (cases s) (simp add: ProcessMeasurement_def Let_def initialize_def)

theorem unrecognized_sensor_first_call_witness:
  "\<not> is_initialized fresh_UKF \<and>
   sensor_type other_1_2 \<noteq> LASER \<and>
   sensor_type other_1_2 \<noteq> RADAR \<and>
   is_initialized (ProcessMeasurement other_1_2 fresh_UKF)"
  using unrecognized_sensor_first_call [of fresh_UKF other_1_2]
  by (simp add: UKF_new_def)

text \<open>
  C2, as the claim states it, fails for such a first measurement on a new estimator:
  the call returns the state below, in which the estimator counts as initialized on
  the contents that the constructor left in \<open>x\<close> and \<open>P\<close>, and nothing is signalled.
\<close>

theorem unrecognized_sensor_accepted_counterexample:
  "ProcessMeasurement other_1_2 fresh_UKF
   = Prediction 0
       \<lparr>is_initialized = True, x = replicate 5 0, P = replicate 5 (replicate 5 0),
        Xsig_pred = replicate 15 (replicate 5 0), time_us = 1000000,
        weights = replicate 15 0, nis_laser = [], nis_radar = []\<rparr>
   \<and> is_initialized (ProcessMeasurement other_1_2 fresh_UKF)"
  by (simp add: ProcessMeasurement_def Let_def initialize_def UKF_new_def)

text \<open>
  C8, as the code has it. On a first lidar measurement \<open>(a, b)\<close> the call sets the state to
  \<open>[a, b, 0, 0, 0]\<close> and \<open>P\<close> to \<open>diag(std_laspx\<^sup>2, std_laspy\<^sup>2, 1, 1, 1)\<close>, and on a first radar
  measurement \<open>(\<rho>, \<phi>, \<rho>')\<close> it sets the state to \<open>[\<rho> cos \<phi>, \<rho> sin \<phi>, |\<rho>'|, 0, 0]\<close> and \<open>P\<close>
  to \<open>diag(std_radr\<^sup>2, std_radr\<^sup>2, 1, std_radphi\<^sup>2, std_radphi\<^sup>2)\<close>. These are the values that
  the prediction and the update of the same call start from, not the ones that the call
  leaves: for the lidar measurement the state is still \<open>[a, b, 0, 0, 0]\<close> at the return and
  \<open>P\<close> is \<open>diag(std_laspx\<^sup>2/2, std_laspy\<^sup>2/2, 1, 1, 1)\<close>, and for the radar measurement
  \<open>(5, 0, 0)\<close> the state at the return is \<open>[e, 0, 0, 0, 0]\<close> with \<open>e\<close> between 4.9955 and
  4.9956.
\<close>

theorem first_measurement_initialization:
  assumes "\<not> is_initialized s"
  shows
   "(sensor_type mp = LASER \<longrightarrow> raw_measurements mp = [a, b] \<longrightarrow>
      x (initialize mp s) = [a, b, 0, 0, 0] \<and>
      P (initialize mp s) = [[std_laspx * std_laspx, 0, 0, 0, 0],
                             [0, std_laspy * std_laspy, 0, 0, 0],
                             [0, 0, 1, 0, 0],
                             [0, 0, 0, 1, 0],
                             [0, 0, 0, 0, 1]] \<and>
      x (Prediction 0 (initialize mp s)) = [a, b, 0, 0, 0] \<and>
      P (Prediction 0 (initialize mp s)) = P (initialize mp s) \<and>
      x (ProcessMeasurement mp s) = [a, b, 0, 0, 0] \<and>
      P (ProcessMeasurement mp s) = [[std_laspx * std_laspx / 2, 0, 0, 0, 0],
                                     [0, std_laspy * std_laspy / 2, 0, 0, 0],
                                     [0, 0, 1, 0, 0],
                                     [0, 0, 0, 1, 0],
                                     [0, 0, 0, 0, 1]]) \<and>
    (sensor_type mp = RADAR \<longrightarrow> raw_measurements mp = [rho, phi, rhodot] \<longrightarrow>
      x (initialize mp s) = [rho * cos phi, rho * sin phi, \<bar>rhodot\<bar>, 0, 0] \<and>
      P (initialize mp s) = [[std_radr * std_radr, 0, 0, 0, 0],
                             [0, std_radr * std_radr, 0, 0, 0],
                             [0, 0, 1, 0, 0],
                             [0, 0, 0, std_radphi * std_radphi, 0],
                             [0, 0, 0, 0, std_radphi * std_radphi]] \<and>
      x (Prediction 0 (initialize mp s)) = x (initialize mp s) \<and>
      P (Prediction 0 (initialize mp s)) = P (initialize mp s)) \<and>
    (sensor_type mp = RADAR \<longrightarrow> raw_measurements mp = [5, 0, 0] \<longrightarrow>
      x (ProcessMeasurement mp s) =
        [5 - 3 / 100 * (sqrt (2527 / 100) - 5)
              / (18 / 100 + 2 * ((sqrt (2527 / 100) - 5) * (sqrt (2527 / 100) - 5)) / 9),
         0, 0, 0, 0] \<and>
      49955 / 10000 < x (ProcessMeasurement mp s) ! 0 \<and>
      x (ProcessMeasurement mp s) ! 0 < 49956 / 10000)"
proof (intro conjI impI)
  assume h: "sensor_type mp = LASER" "raw_measurements mp = [a, b]"
  show i: "x (initialize mp s) = [a, b, 0, 0, 0]"
    by (simp add: initialize_def Let_def h)
  show j: "P (initialize mp s) = [[std_laspx * std_laspx, 0, 0, 0, 0],
                             [0, std_laspy * std_laspy, 0, 0, 0],
                             [0, 0, 1, 0, 0],
                             [0, 0, 0, 1, 0],
                             [0, 0, 0, 0, 1]]"
    by (simp add: initialize_def Let_def h)
  have j': "P (initialize mp s) = [[std_laspx * std_laspx, 0, 0, 0, 0],
                             [0, std_laspy * std_laspy, 0, 0, 0],
                             [0, 0, 1, 0, 0],
                             [0, 0, 0, 1 * 1, 0],
                             [0, 0, 0, 0, 1 * 1]]"
    using j by simp
  have pr: "Prediction 0 (initialize mp s)
      = (initialize mp s)\<lparr>Xsig_pred := start_points a b 0 std_laspx std_laspy 1,
           weights := set_weights\<rparr>"
    using i j' by (rule Prediction_0_diag) (simp_all add: std_laspx_def std_laspy_def sqrt3_le_pi)
  show "x (Prediction 0 (initialize mp s)) = [a, b, 0, 0, 0]" unfolding pr using i by simp
  show "P (Prediction 0 (initialize mp s)) = P (initialize mp s)" unfolding pr by simp
  show "x (ProcessMeasurement mp s) = [a, b, 0, 0, 0]"
    unfolding first_lidar_call [OF assms h] by simp
  show "P (ProcessMeasurement mp s) = [[std_laspx * std_laspx / 2, 0, 0, 0, 0],
                                     [0, std_laspy * std_laspy / 2, 0, 0, 0],
                                     [0, 0, 1, 0, 0],
                                     [0, 0, 0, 1, 0],
                                     [0, 0, 0, 0, 1]]"
    unfolding first_lidar_call [OF assms h] by simp
next
  assume h: "sensor_type mp = RADAR" "raw_measurements mp = [rho, phi, rhodot]"
  show i: "x (initialize mp s) = [rho * cos phi, rho * sin phi, \<bar>rhodot\<bar>, 0, 0]"
    by (simp add: initialize_def Let_def h radar_speed)
  show j: "P (initialize mp s) = [[std_radr * std_radr, 0, 0, 0, 0],
                             [0, std_radr * std_radr, 0, 0, 0],
                             [0, 0, 1, 0, 0],
                             [0, 0, 0, std_radphi * std_radphi, 0],
                             [0, 0, 0, 0, std_radphi * std_radphi]]"
    by (simp add: initialize_def Let_def h)
  show "x (Prediction 0 (initialize mp s)) = x (initialize mp s)"
    unfolding i first_radar_prediction [OF assms h] by simp
  show "P (Prediction 0 (initialize mp s)) = P (initialize mp s)"
    unfolding j first_radar_prediction [OF assms h] by simp
next
  assume h: "sensor_type mp = RADAR" "raw_measurements mp = [5, 0, 0]"
  note e = first_radar_call_5 [OF assms h]
  show "x (ProcessMeasurement mp s) =
        [5 - 3 / 100 * (sqrt (2527 / 100) - 5)
              / (18 / 100 + 2 * ((sqrt (2527 / 100) - 5) * (sqrt (2527 / 100) - 5)) / 9),
         0, 0, 0, 0]"
    by (rule e)
  show "49955 / 10000 < x (ProcessMeasurement mp s) ! 0"
    unfolding e nth_Cons_0 by (rule first_radar_call_5_bounds(1))
  show "x (ProcessMeasurement mp s) ! 0 < 49956 / 10000"
    unfolding e nth_Cons_0 by (rule first_radar_call_5_bounds(2))
qed

theorem first_measurement_initialization_witness:
  "\<not> is_initialized fresh_UKF \<and>
   x (initialize lidar_1_2 fresh_UKF) = [1, 2, 0, 0, 0] \<and>
   x (ProcessMeasurement lidar_1_2 fresh_UKF) = [1, 2, 0, 0, 0] \<and>
   P (ProcessMeasurement lidar_1_2 fresh_UKF)
     = [[std_laspx * std_laspx / 2, 0, 0, 0, 0],
        [0, std_laspy * std_laspy / 2, 0, 0, 0],
        [0, 0, 1, 0, 0],
        [0, 0, 0, 1, 0],
        [0, 0, 0, 0, 1]] \<and>
   x (initialize radar_5_0_0 fresh_UKF) = [5, 0, 0, 0, 0] \<and>
   49955 / 10000 < x (ProcessMeasurement radar_5_0_0 fresh_UKF) ! 0 \<and>
   x (ProcessMeasurement radar_5_0_0 fresh_UKF) ! 0 < 49956 / 10000"
proof -
  have i: "\<not> is_initialized fresh_UKF" by (simp add: UKF_new_def)
  have l: "sensor_type lidar_1_2 = LASER" "raw_measurements lidar_1_2 = [1, 2]"
    by simp_all
  have r: "sensor_type radar_5_0_0 = RADAR" "raw_measurements radar_5_0_0 = [5, 0, 0]"
    by simp_all
  from first_measurement_initialization [OF i, where mp = lidar_1_2 and a = 1 and b = 2] l
  have a: "x (initialize lidar_1_2 fresh_UKF) = [1, 2, 0, 0, 0]"
    "x (ProcessMeasurement lidar_1_2 fresh_UKF) = [1, 2, 0, 0, 0]"
    "P (ProcessMeasurement lidar_1_2 fresh_UKF)
     = [[std_laspx * std_laspx / 2, 0, 0, 0, 0],
        [0, std_laspy * std_laspy / 2, 0, 0, 0],
        [0, 0, 1, 0, 0],
        [0, 0, 0, 1, 0],
        [0, 0, 0, 0, 1]]"
    by blast+
  from first_measurement_initialization
    [OF i, where mp = radar_5_0_0 and rho = 5 and phi = 0 and rhodot = 0] r
  have b: "x (initialize radar_5_0_0 fresh_UKF) = [5 * cos 0, 5 * sin 0, \<bar>0\<bar>, 0, 0]"
    and c: "49955 / 10000 < x (ProcessMeasurement radar_5_0_0 fresh_UKF) ! 0"
      "x (ProcessMeasurement radar_5_0_0 fresh_UKF) ! 0 < 49956 / 10000"
    by blast+
  from i a b c show ?thesis by simp
qed

text \<open>
  C8, as the claim states it, fails for what the first measurement leaves in a new
  estimator: after the lidar measurement \<open>(1, 2)\<close> the covariance is not
  \<open>diag(std_laspx\<^sup>2, std_laspy\<^sup>2, 1, 1, 1)\<close>, and after the radar measurement \<open>(5, 0, 0)\<close> the
  state is not \<open>[5, 0, 0, 0, 0]\<close>.
\<close>

theorem first_measurement_initialization_counterexample:
  "P (ProcessMeasurement lidar_1_2 fresh_UKF)
     \<noteq> [[std_laspx * std_laspx, 0, 0, 0, 0],
         [0, std_laspy * std_laspy, 0, 0, 0],
         [0, 0, 1, 0, 0],
         [0, 0, 0, 1, 0],
         [0, 0, 0, 0, 1]] \<and>
   x (ProcessMeasurement radar_5_0_0 fresh_UKF) \<noteq> [5, 0, 0, 0, 0]"
proof -
  have c: "ProcessMeasurement lidar_1_2 fresh_UKF =
     fresh_UKF\<lparr>is_initialized := True, time_us := timestamp lidar_1_2,
          Xsig_pred := start_points 1 2 0 std_laspx std_laspy 1,
          weights := set_weights,
          x := [1, 2, 0, 0, 0],
          P := [[std_laspx * std_laspx / 2, 0, 0, 0, 0],
                [0, std_laspy * std_laspy / 2, 0, 0, 0],
                [0, 0, 1, 0, 0],
                [0, 0, 0, 1, 0],
                [0, 0, 0, 0, 1]],
          nis_laser := nis_laser fresh_UKF @ [0]\<rparr>"
    by (rule first_lidar_call) (simp_all add: UKF_new_def)
  have a: "P (ProcessMeasurement lidar_1_2 fresh_UKF)
     \<noteq> [[std_laspx * std_laspx, 0, 0, 0, 0],
         [0, std_laspy * std_laspy, 0, 0, 0],
         [0, 0, 1, 0, 0],
         [0, 0, 0, 1, 0],
         [0, 0, 0, 0, 1]]"
    unfolding c by (simp add: std_laspx_def)
  have e: "x (ProcessMeasurement radar_5_0_0 fresh_UKF) =
     [5 - 3 / 100 * (sqrt (2527 / 100) - 5)
           / (18 / 100 + 2 * ((sqrt (2527 / 100) - 5) * (sqrt (2527 / 100) - 5)) / 9),
      0, 0, 0, 0]"
    by (rule first_radar_call_5) (simp_all add: UKF_new_def)
  define e0 where "e0 = 5 - 3 / 100 * (sqrt (2527 / 100) - 5)
           / (18 / 100 + 2 * ((sqrt (2527 / 100) - 5) * (sqrt (2527 / 100) - 5)) / 9)"
  have "e0 < 49956 / 10000" unfolding e0_def by (rule first_radar_call_5_bounds(2))
  then have "e0 \<noteq> 5" by linarith
  then have b: "x (ProcessMeasurement radar_5_0_0 fresh_UKF) \<noteq> [5, 0, 0, 0, 0]"
    unfolding e e0_def [symmetric] by simp
  from a b show ?thesis by blast
qed

subsection \<open>The motion model\<close>

text \<open>
  C7. For every sigma point, the position update takes the closed form, which divides
  by the yaw rate, exactly when \<open>|yawd| > 0.001\<close> and the straight line otherwise; with
  every division checked it never divides by zero and gives the same result.
  \<open>Prediction\<close> applies it to each of the 15 augmented sigma points.
\<close>

theorem ctrv_guard:
  "ctrv_position_checked delta_t c = Some (ctrv_position delta_t c) \<and>
   ctrv_position delta_t c =
     (if \<bar>c ! 4\<bar> > 1 / 1000
      then (c ! 0 + c ! 2 / c ! 4 * (sin (c ! 3 + c ! 4 * delta_t) - sin (c ! 3)),
            c ! 1 + c ! 2 / c ! 4 * (cos (c ! 3) - cos (c ! 3 + c ! 4 * delta_t)))
      else (c ! 0 + c ! 2 * delta_t * cos (c ! 3),
            c ! 1 + c ! 2 * delta_t * sin (c ! 3))) \<and>
   Xsig_pred (Prediction delta_t s)
     = map (\<lambda>i. ctrv delta_t (augmented_sigma_points (x s) (P s) ! i)) [0..<n_sig] \<and>
   take 2 (ctrv delta_t c)
     = [fst (ctrv_position delta_t c) + 0.5 * c ! 5 * delta_t * delta_t * cos (c ! 3),
        snd (ctrv_position delta_t c) + 0.5 * c ! 5 * delta_t * delta_t * sin (c ! 3)]"
  by (auto simp add: ctrv_position_checked_def ctrv_position_def checked_div_def Let_def
      Prediction_def ctrv_def)

subsection \<open>The radar model at the origin\<close>

lemma radar_Zsig_nth: "i < n_sig \<Longrightarrow> radar_Zsig s ! i = radar_model (Xsig_pred s ! i)"
  by (simp add: radar_Zsig_def)

lemma radar_model_checked_zero: "c ! 0 = 0 \<Longrightarrow> c ! 1 = 0 \<Longrightarrow> radar_model_checked c = None"
  by (simp add: radar_model_checked_def checked_div_def Let_def)

lemma radar_model_range_zero: "c ! 0 = 0 \<Longrightarrow> c ! 1 = 0 \<Longrightarrow> radar_model c ! 0 = 0"
  by (simp add: radar_model_def Let_def)

lemma UpdateRadar_changes: "UpdateRadar mp s \<noteq> s"
proof
  assume "UpdateRadar mp s = s"
  then have "nis_radar (UpdateRadar mp s) = nis_radar s" by simp
  then show False by simp
qed

lemma Prediction_first_sigma_point:
  "Xsig_pred (Prediction delta_t s) ! 0 = ctrv delta_t (x s @ [0, 0])"
  by (simp add: Prediction_def Let_def augmented_sigma_points_def n_sig_value upt_conv_Cons)

lemma radar_model_bearing_zero: "c ! 0 = 0 \<Longrightarrow> c ! 1 = 0 \<Longrightarrow> radar_model c ! 1 = 0"
  by (simp add: radar_model_def Let_def atan2_def)

text \<open>
  C3, as the code has it. Nothing guards the radar model: on a predicted sigma point
  with \<open>px = py = 0\<close> the range is 0, the bearing is \<open>atan2(0, 0) = 0\<close> and the range
  rate divides by the range, and \<open>UpdateRadar\<close> goes on as for any other input: it appends
  the NIS value to the radar history, overwrites \<open>x\<close> with \<open>x + K z_diff\<close> and \<open>P\<close> with
  \<open>P - K S K\<^sup>T\<close> for the gain \<open>K = Tc S\<^sup>-\<^sup>1\<close>, and so returns a changed estimator. (What
  the division yields, and with it the values written, is outside the model.)
\<close>

theorem radar_zero_range_unguarded:
  "i < n_sig \<Longrightarrow> Xsig_pred s ! i ! 0 = 0 \<Longrightarrow> Xsig_pred s ! i ! 1 = 0 \<Longrightarrow>
   radar_model_checked (Xsig_pred s ! i) = None \<and>
   radar_Zsig s ! i ! 0 = 0 \<and>
   radar_Zsig s ! i ! 1 = 0 \<and>
   UpdateRadar mp s =
     s\<lparr>nis_radar := nis_radar s @ [radar_nis mp s],
       x := vec_add (x s)
              (mat_vec (mat_mul (radar_Tc s) (mat_inverse (radar_S s))) (radar_residual mp s)),
       P := mat_sub (P s)
              (mat_mul (mat_mul (mat_mul (radar_Tc s) (mat_inverse (radar_S s))) (radar_S s))
                 (mat_transpose (mat_mul (radar_Tc s) (mat_inverse (radar_S s)))))\<rparr> \<and>
   UpdateRadar mp s \<noteq> s"
proof (intro conjI)
  assume h: "i < n_sig" "Xsig_pred s ! i ! 0 = 0" "Xsig_pred s ! i ! 1 = 0"
  show "radar_model_checked (Xsig_pred s ! i) = None"
    using h(2,3) by (rule radar_model_checked_zero)
  show "radar_Zsig s ! i ! 0 = 0"
    unfolding radar_Zsig_nth [OF h(1)] using h(2,3) by (rule radar_model_range_zero)
  show "radar_Zsig s ! i ! 1 = 0"
    unfolding radar_Zsig_nth [OF h(1)] using h(2,3) by (rule radar_model_bearing_zero)
  show "UpdateRadar mp s =
     s\<lparr>nis_radar := nis_radar s @ [radar_nis mp s],
       x := vec_add (x s)
              (mat_vec (mat_mul (radar_Tc s) (mat_inverse (radar_S s))) (radar_residual mp s)),
       P := mat_sub (P s)
              (mat_mul (mat_mul (mat_mul (radar_Tc s) (mat_inverse (radar_S s))) (radar_S s))
                 (mat_transpose (mat_mul (radar_Tc s) (mat_inverse (radar_S s)))))\<rparr>"
    by (simp add: UpdateRadar_def Let_def)
  show "UpdateRadar mp s \<noteq> s" by (rule UpdateRadar_changes)
qed

theorem radar_zero_range_unguarded_witness:
  "(0::nat) < n_sig \<and>
   Xsig_pred (Prediction 0 (initialize radar_origin fresh_UKF)) ! 0 ! 0 = 0 \<and>
   Xsig_pred (Prediction 0 (initialize radar_origin fresh_UKF)) ! 0 ! 1 = 0 \<and>
   radar_model_checked (Xsig_pred (Prediction 0 (initialize radar_origin fresh_UKF)) ! 0) = None \<and>
   radar_Zsig (Prediction 0 (initialize radar_origin fresh_UKF)) ! 0 ! 0 = 0 \<and>
   UpdateRadar radar_origin (Prediction 0 (initialize radar_origin fresh_UKF))
     \<noteq> Prediction 0 (initialize radar_origin fresh_UKF)"
proof -
  have xi: "x (initialize radar_origin fresh_UKF) = [0, 0, 0, 0, 0]"
    by (simp add: initialize_def Let_def)
  have c: "Xsig_pred (Prediction 0 (initialize radar_origin fresh_UKF)) ! 0 = [0, 0, 0, 0, 0]"
    by (simp add: Prediction_first_sigma_point xi ctrv_def ctrv_position_def Let_def)
  have h: "(0::nat) < n_sig"
    "Xsig_pred (Prediction 0 (initialize radar_origin fresh_UKF)) ! 0 ! 0 = 0"
    "Xsig_pred (Prediction 0 (initialize radar_origin fresh_UKF)) ! 0 ! 1 = 0"
    by (simp_all add: c n_sig_value)
  from radar_zero_range_unguarded
      [OF h, of radar_origin] h
  show ?thesis by blast
qed

text \<open>
  C3, as the claim states it, fails for a first radar measurement of range 0 on a new
  estimator: the first predicted sigma point is the origin, the checked radar model
  divides by zero there, and the call is the radar update, which does not keep the
  predicted state and appends a value to the radar history.
\<close>

theorem radar_zero_range_counterexample:
  "radar_model_checked (Xsig_pred (Prediction 0 (initialize radar_origin fresh_UKF)) ! 0) = None \<and>
   ProcessMeasurement radar_origin fresh_UKF
     = UpdateRadar radar_origin (Prediction 0 (initialize radar_origin fresh_UKF)) \<and>
   UpdateRadar radar_origin (Prediction 0 (initialize radar_origin fresh_UKF))
     \<noteq> Prediction 0 (initialize radar_origin fresh_UKF) \<and>
   length (nis_radar (ProcessMeasurement radar_origin fresh_UKF)) = 1"
proof -
  have xi: "x (initialize radar_origin fresh_UKF) = [0, 0, 0, 0, 0]"
    by (simp add: initialize_def Let_def)
  have c: "Xsig_pred (Prediction 0 (initialize radar_origin fresh_UKF)) ! 0 = [0, 0, 0, 0, 0]"
    by (simp add: Prediction_first_sigma_point xi ctrv_def ctrv_position_def Let_def)
  have a: "radar_model_checked (Xsig_pred (Prediction 0 (initialize radar_origin fresh_UKF)) ! 0)
             = None"
    by (simp add: c radar_model_checked_zero)
  have b: "ProcessMeasurement radar_origin fresh_UKF
             = UpdateRadar radar_origin (Prediction 0 (initialize radar_origin fresh_UKF))"
    using ProcessMeasurement_uninitialized [of fresh_UKF radar_origin]
    by (simp add: UKF_new_def)
  have d: "UpdateRadar radar_origin (Prediction 0 (initialize radar_origin fresh_UKF))
             \<noteq> Prediction 0 (initialize radar_origin fresh_UKF)"
    by (rule UpdateRadar_changes)
  have e: "length (nis_radar (ProcessMeasurement radar_origin fresh_UKF)) = 1"
  proof -
    have "nis_radar fresh_UKF = []" by (simp add: UKF_new_def)
    then show ?thesis unfolding b by simp
  qed
  from a b d e show ?thesis by blast
qed

subsection \<open>The NIS histories\<close>

lemma ProcessMeasurement_nis_laser:
  "\<exists>ys. nis_laser (ProcessMeasurement mp s) = nis_laser s @ ys \<and>
        length ys = (if sensor_type mp = LASER then 1 else 0)"
  by (simp add: ProcessMeasurement_def Let_def)

lemma ProcessMeasurement_nis_radar:
  "\<exists>ys. nis_radar (ProcessMeasurement mp s) = nis_radar s @ ys \<and>
        length ys = (if sensor_type mp = RADAR then 1 else 0)"
  by (simp add: ProcessMeasurement_def Let_def)

lemma ProcessMeasurements_Cons:
  "ProcessMeasurements (mp # mps) s = ProcessMeasurements mps (ProcessMeasurement mp s)"
  by (simp add: ProcessMeasurements_def)

lemma ProcessMeasurements_nis_laser:
  "\<exists>ys. nis_laser (ProcessMeasurements mps s) = nis_laser s @ ys \<and>
        length ys = length (filter (\<lambda>m. sensor_type m = LASER) mps)"
proof (induction mps arbitrary: s)
  case Nil
  show ?case by (simp add: ProcessMeasurements_def)
next
  case (Cons mp mps)
  obtain ys where ys: "nis_laser (ProcessMeasurement mp s) = nis_laser s @ ys"
    "length ys = (if sensor_type mp = LASER then 1 else 0)"
    using ProcessMeasurement_nis_laser by blast
  from Cons.IH [of "ProcessMeasurement mp s"] obtain zs where
    zs: "nis_laser (ProcessMeasurements mps (ProcessMeasurement mp s))
           = nis_laser (ProcessMeasurement mp s) @ zs"
     "length zs = length (filter (\<lambda>m. sensor_type m = LASER) mps)" by blast
  have "nis_laser (ProcessMeasurements (mp # mps) s) = nis_laser s @ (ys @ zs)"
    using ys zs by (simp add: ProcessMeasurements_Cons)
  moreover have "length (ys @ zs) = length (filter (\<lambda>m. sensor_type m = LASER) (mp # mps))"
    using ys zs by simp
  ultimately show ?case by blast
qed

lemma ProcessMeasurements_nis_radar:
  "\<exists>ys. nis_radar (ProcessMeasurements mps s) = nis_radar s @ ys \<and>
        length ys = length (filter (\<lambda>m. sensor_type m = RADAR) mps)"
proof (induction mps arbitrary: s)
  case Nil
  show ?case by (simp add: ProcessMeasurements_def)
next
  case (Cons mp mps)
  obtain ys where ys: "nis_radar (ProcessMeasurement mp s) = nis_radar s @ ys"
    "length ys = (if sensor_type mp = RADAR then 1 else 0)"
    using ProcessMeasurement_nis_radar by blast
  from Cons.IH [of "ProcessMeasurement mp s"] obtain zs where
    zs: "nis_radar (ProcessMeasurements mps (ProcessMeasurement mp s))
           = nis_radar (ProcessMeasurement mp s) @ zs"
     "length zs = length (filter (\<lambda>m. sensor_type m = RADAR) mps)" by blast
  have "nis_radar (ProcessMeasurements (mp # mps) s) = nis_radar s @ (ys @ zs)"
    using ys zs by (simp add: ProcessMeasurements_Cons)
  moreover have "length (ys @ zs) = length (filter (\<lambda>m. sensor_type m = RADAR) (mp # mps))"
    using ys zs by simp
  ultimately show ?case by blast
qed

text \<open>
  C9. A lidar update appends exactly one value to the lidar history and leaves the radar
  history alone, a radar update does the converse, and \<open>Prediction\<close> touches neither.
  Over any sequence of calls each history keeps what it held and grows by as many
  values as there are measurements of its sensor type, so that on a new estimator the
  lengths are the numbers of lidar and of radar measurements processed.
\<close>

theorem nis_histories_append_only:
  "nis_laser (UpdateLidar mp s) = nis_laser s @ [lidar_nis mp s] \<and>
   nis_radar (UpdateLidar mp s) = nis_radar s \<and>
   nis_radar (UpdateRadar mp s) = nis_radar s @ [radar_nis mp s] \<and>
   nis_laser (UpdateRadar mp s) = nis_laser s \<and>
   nis_laser (Prediction delta_t s) = nis_laser s \<and>
   nis_radar (Prediction delta_t s) = nis_radar s \<and>
   (\<exists>ys. nis_laser (ProcessMeasurements mps s) = nis_laser s @ ys \<and>
         length ys = length (filter (\<lambda>m. sensor_type m = LASER) mps)) \<and>
   (\<exists>ys. nis_radar (ProcessMeasurements mps s) = nis_radar s @ ys \<and>
         length ys = length (filter (\<lambda>m. sensor_type m = RADAR) mps)) \<and>
   length (nis_laser (ProcessMeasurements mps (UKF_new x0 P0 X0 t0 w0)))
     = length (filter (\<lambda>m. sensor_type m = LASER) mps) \<and>
   length (nis_radar (ProcessMeasurements mps (UKF_new x0 P0 X0 t0 w0)))
     = length (filter (\<lambda>m. sensor_type m = RADAR) mps)"
proof -
  obtain ys where ys: "nis_laser (ProcessMeasurements mps (UKF_new x0 P0 X0 t0 w0))
      = nis_laser (UKF_new x0 P0 X0 t0 w0) @ ys"
    "length ys = length (filter (\<lambda>m. sensor_type m = LASER) mps)"
    using ProcessMeasurements_nis_laser by blast
  obtain zs where zs: "nis_radar (ProcessMeasurements mps (UKF_new x0 P0 X0 t0 w0))
      = nis_radar (UKF_new x0 P0 X0 t0 w0) @ zs"
    "length zs = length (filter (\<lambda>m. sensor_type m = RADAR) mps)"
    using ProcessMeasurements_nis_radar by blast
  have a: "length (nis_laser (ProcessMeasurements mps (UKF_new x0 P0 X0 t0 w0)))
     = length (filter (\<lambda>m. sensor_type m = LASER) mps)"
    using ys by (simp add: UKF_new_def)
  have b: "length (nis_radar (ProcessMeasurements mps (UKF_new x0 P0 X0 t0 w0)))
     = length (filter (\<lambda>m. sensor_type m = RADAR) mps)"
    using zs by (simp add: UKF_new_def)
  show ?thesis
    using a b ProcessMeasurements_nis_laser [of mps s] ProcessMeasurements_nis_radar [of mps s]
    by simp
qed

subsection \<open>\<open>printNIS\<close>\<close>

lemma printNIS_loop_eq:
  "i \<le> length (nis_radar s) \<Longrightarrow>
   printNIS_loop s i =
     (if length (nis_radar s) \<le> length (nis_laser s) \<or> i = length (nis_radar s)
      then Some (map (\<lambda>k. Row k (nis_radar s ! k) (nis_laser s ! k)) [i..<length (nis_radar s)])
      else None)"
proof (induction s i rule: printNIS_loop.induct)
  case (1 s i)
  show ?case
  proof (cases "i < length (nis_radar s)")
    case False
    with "1.prems" show ?thesis by (subst printNIS_loop.simps) simp
  next
    case r: True
    show ?thesis
    proof (cases "i < length (nis_laser s)")
      case False
      with r show ?thesis by (subst printNIS_loop.simps) simp
    next
      case l: True
      have ih: "printNIS_loop s (Suc i) =
        (if length (nis_radar s) \<le> length (nis_laser s) \<or> Suc i = length (nis_radar s)
         then Some (map (\<lambda>k. Row k (nis_radar s ! k) (nis_laser s ! k))
                      [Suc i..<length (nis_radar s)])
         else None)"
        using "1.IH" [OF r l] r by simp
      have u: "[i..<length (nis_radar s)] = i # [Suc i..<length (nis_radar s)]"
        using r by (simp add: upt_conv_Cons)
      show ?thesis
        using r l by (subst printNIS_loop.simps) (auto simp add: ih u)
    qed
  qed
qed

text \<open>
  C10. \<open>printNIS\<close> reads the row \<open>(i, nis_radar[i], nis_laser[i])\<close> for every \<open>i\<close> below
  the length of the radar history. It stays in bounds exactly when the lidar history is
  at least as long as the radar history, and it then writes the header and these rows.
\<close>

theorem printNIS_in_bounds:
  "(printNIS s \<noteq> None) = (length (nis_radar s) \<le> length (nis_laser s)) \<and>
   (length (nis_radar s) \<le> length (nis_laser s) \<longrightarrow>
      printNIS s =
        Some (Header ([CHR 0x0A, CHR 0x0A] @ ''Num,Radar,Lidar'')
              # map (\<lambda>i. Row i (nis_radar s ! i) (nis_laser s ! i)) [0..<length (nis_radar s)]))"
  by (auto simp add: printNIS_def printNIS_loop_eq)

theorem printNIS_in_bounds_witness:
  "length (nis_radar (fresh_UKF\<lparr>nis_laser := [3, 4, 5], nis_radar := [1, 2]\<rparr>))
     \<le> length (nis_laser (fresh_UKF\<lparr>nis_laser := [3, 4, 5], nis_radar := [1, 2]\<rparr>)) \<and>
   printNIS (fresh_UKF\<lparr>nis_laser := [3, 4, 5], nis_radar := [1, 2]\<rparr>)
     = Some [Header ([CHR 0x0A, CHR 0x0A] @ ''Num,Radar,Lidar''), Row 0 1 3, Row 1 2 4]"
  using printNIS_in_bounds [of "fresh_UKF\<lparr>nis_laser := [3, 4, 5], nis_radar := [1, 2]\<rparr>"]
  by (simp add: UKF_new_def upt_conv_Cons)

subsection \<open>The NIS values\<close>

lemma length_vec_add [simp]: "length (vec_add u v) = min (length u) (length v)"
  by (simp add: vec_add_def)
lemma length_vec_sub [simp]: "length (vec_sub u v) = min (length u) (length v)"
  by (simp add: vec_sub_def)
lemma length_scal_vec [simp]: "length (scal_vec c v) = length v"
  by (simp add: scal_vec_def)
lemma length_normalize_at [simp]: "length (normalize_at k v) = length v"
  by (simp add: normalize_at_def)

lemma is_mat_zero: "is_mat r c (zero_mat r c)"
  by (simp add: is_mat_def zero_mat_def)

lemma is_mat_outer: "length u = r \<Longrightarrow> length v = c \<Longrightarrow> is_mat r c (scal_mat w (outer u v))"
  by (auto simp add: is_mat_def scal_mat_def outer_def)

lemma is_mat_add: "is_mat r c A \<Longrightarrow> is_mat r c B \<Longrightarrow> is_mat r c (mat_add A B)"
  by (auto simp add: is_mat_def mat_add_def set_zip)

lemma is_mat_foldl:
  assumes "is_mat r c A" "\<And>i. i \<in> set is \<Longrightarrow> is_mat r c (f i)"
  shows "is_mat r c (foldl (\<lambda>S i. mat_add S (f i)) A is)"
  using assms by (induction "is" arbitrary: A) (auto simp add: is_mat_add)

lemma length_weighted_sum_aux:
  assumes "length m = n" "\<And>i. i \<in> set is \<Longrightarrow> length (Z ! i) = n"
  shows "length (foldl (\<lambda>m i. vec_add m (scal_vec (w ! i) (Z ! i))) m is) = n"
  using assms by (induction "is" arbitrary: m) auto

lemma length_weighted_sum:
  "(\<And>i. i < n_sig \<Longrightarrow> length (Z ! i) = n) \<Longrightarrow> length (weighted_sum w Z n) = n"
  unfolding weighted_sum_def by (rule length_weighted_sum_aux) (simp_all add: zero_vec_def)

lemma lidar_Zsig_nth: "i < n_sig \<Longrightarrow> lidar_Zsig s ! i = [Xsig_pred s ! i ! 0, Xsig_pred s ! i ! 1]"
  by (simp add: lidar_Zsig_def)

lemma length_lidar_z_pred: "length (lidar_z_pred s) = 2"
  unfolding lidar_z_pred_def by (rule length_weighted_sum) (simp add: lidar_Zsig_nth)

lemma is_mat_lidar_S: "is_mat 2 2 (lidar_S s)"
  unfolding lidar_S_def Let_def
  apply (rule is_mat_add)
   apply (rule is_mat_foldl)
    apply (rule is_mat_zero)
   apply (rule is_mat_outer)
    apply (simp_all add: lidar_Zsig_nth length_lidar_z_pred)
  apply (simp add: is_mat_def)
  done

lemma length_radar_model: "length (radar_model c) = 3"
  by (simp add: radar_model_def Let_def)

lemma length_radar_z_pred: "length (radar_z_pred s) = 3"
  unfolding radar_z_pred_def by (rule length_weighted_sum) (simp add: radar_Zsig_nth length_radar_model)

lemma is_mat_radar_S: "is_mat 3 3 (radar_S s)"
  unfolding radar_S_def Let_def
  apply (rule is_mat_add)
   apply (rule is_mat_foldl)
    apply (rule is_mat_zero)
   apply (rule is_mat_outer)
    apply (simp_all add: radar_Zsig_nth length_radar_z_pred length_radar_model)
  apply (simp add: is_mat_def)
  done

lemma length_lidar_residual: "length (lidar_residual mp s) = 2"
  by (simp add: lidar_residual_def Let_def length_lidar_z_pred)

lemma length_radar_residual: "length (radar_residual mp s) = 3"
  by (simp add: radar_residual_def Let_def length_radar_z_pred)

lemma vec2: "length v = 2 \<Longrightarrow> \<exists>a b. v = [a, b]"
  by (auto simp add: length_Suc_conv numeral_2_eq_2)

lemma vec3: "length v = 3 \<Longrightarrow> \<exists>a b c. v = [a, b, c]"
  by (auto simp add: length_Suc_conv numeral_3_eq_3)

lemma mat2: "is_mat 2 2 A \<Longrightarrow> \<exists>a b c d. A = [[a, b], [c, d]]"
proof -
  assume a: "is_mat 2 2 A"
  then obtain r1 r2 where A: "A = [r1, r2]" using vec2 [of A] by (auto simp add: is_mat_def)
  with a have "length r1 = 2" "length r2 = 2" by (simp_all add: is_mat_def)
  then show ?thesis using A vec2 [of r1] vec2 [of r2] by auto
qed

lemma mat3: "is_mat 3 3 A \<Longrightarrow>
  \<exists>a b c d e f g h i. A = [[a, b, c], [d, e, f], [g, h, i]]"
proof -
  assume a: "is_mat 3 3 A"
  then obtain r1 r2 r3 where A: "A = [r1, r2, r3]" using vec3 [of A] by (auto simp add: is_mat_def)
  with a have "length r1 = 3" "length r2 = 3" "length r3 = 3" by (simp_all add: is_mat_def)
  then show ?thesis using A vec3 [of r1] vec3 [of r2] vec3 [of r3] by auto
qed

lemma div_nonneg_of_mult: fixes t d :: real assumes "0 \<le> d * t" shows "0 \<le> t / d"
  using assms by (auto simp add: zero_le_mult_iff zero_le_divide_iff)

lemma dot_zero_vec: "dot (zero_vec n) u = 0"
proof (induction n arbitrary: u)
  case 0
  show ?case by (simp add: dot_def zero_vec_def)
next
  case (Suc n)
  then show ?case by (cases u) (simp_all add: dot_def zero_vec_def)
qed

lemma pos_def_nonneg:
  assumes "pos_def A" "length v = length A"
  shows "0 \<le> dot v (mat_vec A v)"
proof (cases "v = zero_vec (length A)")
  case True
  then show ?thesis by (simp add: dot_zero_vec)
next
  case False
  with assms have "0 < dot v (mat_vec A v)" by (simp add: pos_def_def)
  then show ?thesis by simp
qed

lemma nis2_nonneg:
  assumes "pos_def [[a, b], [c, d]]"
  shows "0 \<le> dot (vec_mat [p, q] (mat_inverse [[a, b], [c, d]])) [p, q]"
proof -
  let ?w = "[d * p - b * q, a * q - c * p]"
  let ?D = "a * d - b * c"
  have "0 \<le> dot ?w (mat_vec [[a, b], [c, d]] ?w)"
    using assms by (rule pos_def_nonneg) simp
  also have "dot ?w (mat_vec [[a, b], [c, d]] ?w) = ?D * (d * p * p - (b + c) * p * q + a * q * q)"
    by (simp add: dot_def mat_vec_def algebra_simps)
  finally have "0 \<le> (d * p * p - (b + c) * p * q + a * q * q) / ?D"
    by (rule div_nonneg_of_mult)
  moreover have "dot (vec_mat [p, q] (mat_inverse [[a, b], [c, d]])) [p, q]
       = (d * p * p - (b + c) * p * q + a * q * q) / ?D"
    by (simp add: dot_def vec_mat_def mat_inverse_def det2_def adjugate2_def scal_mat_def
        scal_vec_def mat_transpose_def col_def upt_conv_Cons algebra_simps
        add_divide_distrib diff_divide_distrib)
  ultimately show ?thesis by simp
qed

lemma dot3_quadratic:
  "dot [u, v, w] (mat_vec [[a, b, c], [d, e, f], [g, h, i]] [u, v, w])
     = u * (a * u + b * v + c * w) + v * (d * u + e * v + f * w) + w * (g * u + h * v + i * w)"
  by (simp add: dot_def mat_vec_def add.assoc)

lemma quadratic_form3:
  "dot (vec_mat [p, q, r] (scal_mat k [[a0, a1, a2], [b0, b1, b2], [c0, c1, c2]])) [p, q, r]
     = k * (p * (a0 * p + b0 * q + c0 * r) + q * (a1 * p + b1 * q + c1 * r)
            + r * (a2 * p + b2 * q + c2 * r))"
  by (simp add: dot_def vec_mat_def scal_mat_def scal_vec_def mat_transpose_def col_def
      upt_conv_Cons algebra_simps)

lemma quadratic_form2:
  "dot (vec_mat [p, q] (scal_mat k [[a0, a1], [b0, b1]])) [p, q]
     = k * (p * (a0 * p + b0 * q) + q * (a1 * p + b1 * q))"
  by (simp add: dot_def vec_mat_def scal_mat_def scal_vec_def mat_transpose_def col_def
      upt_conv_Cons algebra_simps)

lemma nis3_nonneg:
  assumes "pos_def [[a, b, c], [d, e, f], [g, h, i]]"
  shows "0 \<le> dot (vec_mat [p, q, r] (mat_inverse [[a, b, c], [d, e, f], [g, h, i]])) [p, q, r]"
proof -
  let ?S = "[[a, b, c], [d, e, f], [g, h, i]]"
  let ?w0 = "(e * i - f * h) * p + (c * h - b * i) * q + (b * f - c * e) * r"
  let ?w1 = "(f * g - d * i) * p + (a * i - c * g) * q + (c * d - a * f) * r"
  let ?w2 = "(d * h - e * g) * p + (b * g - a * h) * q + (a * e - b * d) * r"
  let ?D = "a * (e * i - f * h) - b * (d * i - f * g) + c * (d * h - e * g)"
  let ?N = "p * ((e * i - f * h) * p + (f * g - d * i) * q + (d * h - e * g) * r)
          + q * ((c * h - b * i) * p + (a * i - c * g) * q + (b * g - a * h) * r)
          + r * ((b * f - c * e) * p + (c * d - a * f) * q + (a * e - b * d) * r)"
  have r0: "a * ?w0 + b * ?w1 + c * ?w2 = ?D * p" by (simp add: algebra_simps)
  have r1: "d * ?w0 + e * ?w1 + f * ?w2 = ?D * q" by (simp add: algebra_simps)
  have r2: "g * ?w0 + h * ?w1 + i * ?w2 = ?D * r" by (simp add: algebra_simps)
  have "0 \<le> dot [?w0, ?w1, ?w2] (mat_vec ?S [?w0, ?w1, ?w2])"
    using assms by (rule pos_def_nonneg) simp
  also have "dot [?w0, ?w1, ?w2] (mat_vec ?S [?w0, ?w1, ?w2])
      = ?w0 * (a * ?w0 + b * ?w1 + c * ?w2) + ?w1 * (d * ?w0 + e * ?w1 + f * ?w2)
        + ?w2 * (g * ?w0 + h * ?w1 + i * ?w2)"
    by (rule dot3_quadratic)
  also have "\<dots> = ?D * (?w0 * p + ?w1 * q + ?w2 * r)"
    unfolding r0 r1 r2 by (simp only: algebra_simps)
  also have "?w0 * p + ?w1 * q + ?w2 * r = ?N" by (simp add: algebra_simps)
  finally have "0 \<le> ?N / ?D" by (rule div_nonneg_of_mult)
  moreover have "dot (vec_mat [p, q, r] (mat_inverse ?S)) [p, q, r] = ?N / ?D"
    by (simp add: mat_inverse_def det3_def adjugate3_def quadratic_form3)
  ultimately show ?thesis by simp
qed

text \<open>
  C5, as the code has it. The value that an update appends is
  \<open>z_diff\<^sup>T S\<^sup>-\<^sup>1 z_diff\<close>, and it is non-negative whenever the innovation covariance \<open>S\<close>
  of that update is positive definite. The code does not make \<open>S\<close> positive definite:
  \<open>S\<close> is a weighted sum of outer products in which the first weight is negative.
\<close>

theorem nis_nonneg_if_pos_def:
  "(pos_def (lidar_S s) \<longrightarrow> 0 \<le> lidar_nis mp s) \<and>
   (pos_def (radar_S s) \<longrightarrow> 0 \<le> radar_nis mp s) \<and>
   last (nis_laser (UpdateLidar mp s)) = lidar_nis mp s \<and>
   last (nis_radar (UpdateRadar mp s)) = radar_nis mp s"
proof -
  have l: "0 \<le> lidar_nis mp s" if h: "pos_def (lidar_S s)"
  proof -
    obtain a b c d where S: "lidar_S s = [[a, b], [c, d]]"
      using mat2 [OF is_mat_lidar_S] by blast
    obtain p q where z: "lidar_residual mp s = [p, q]"
      using vec2 [OF length_lidar_residual] by blast
    show ?thesis
      using nis2_nonneg [of a b c d p q] h by (simp add: lidar_nis_def Let_def S z)
  qed
  have r: "0 \<le> radar_nis mp s" if h: "pos_def (radar_S s)"
  proof -
    obtain a b c d e f g k i where S: "radar_S s = [[a, b, c], [d, e, f], [g, k, i]]"
      using mat3 [OF is_mat_radar_S] by blast
    obtain p q r where z: "radar_residual mp s = [p, q, r]"
      using vec3 [OF length_radar_residual] by blast
    show ?thesis
      using nis3_nonneg [of a b c d e f g k i p q r] h by (simp add: radar_nis_def Let_def S z)
  qed
  from l r show ?thesis by simp
qed

lemma still_lidar_Zsig: "lidar_Zsig still_UKF = replicate 15 [1, 0]"
  by (simp add: lidar_Zsig_def n_sig_value upt_15 replicate_15)

lemma still_lidar_z_pred: "lidar_z_pred still_UKF = [1, 0]"
  unfolding lidar_z_pred_def still_lidar_Zsig
  by (simp add: weighted_sum_def n_sig_value upt_15 set_weights_value zero_vec_def vec_add_def scal_vec_def replicate_15 eval_nat_numeral)

lemma still_lidar_S: "lidar_S still_UKF = [[std_laspx * std_laspx, 0], [0, std_laspy * std_laspy]]"
  unfolding lidar_S_def still_lidar_Zsig still_lidar_z_pred
  by (simp add: n_sig_value upt_15 replicate_15 zero_mat_def vec_sub_def mat_add_def vec_add_def scal_mat_def scal_vec_def outer_def Let_def eval_nat_numeral)

lemma radar_model_unit: "radar_model [1, 0, 0, 0, 0] = [1, 0, 0]"
  by (simp add: radar_model_def atan2_def Let_def)

lemma still_radar_Zsig: "radar_Zsig still_UKF = replicate 15 [1, 0, 0]"
  by (simp add: radar_Zsig_def n_sig_value upt_15 replicate_15 radar_model_unit)

lemma still_radar_z_pred: "radar_z_pred still_UKF = [1, 0, 0]"
  unfolding radar_z_pred_def still_radar_Zsig
  by (simp add: weighted_sum_def n_sig_value upt_15 set_weights_value zero_vec_def vec_add_def scal_vec_def replicate_15 eval_nat_numeral)

lemma still_radar_S: "radar_S still_UKF = [[std_radr * std_radr, 0, 0], [0, std_radphi * std_radphi, 0], [0, 0, std_radrd * std_radrd]]"
  unfolding radar_S_def still_radar_Zsig still_radar_z_pred
  by (simp add: n_sig_value upt_15 replicate_15 zero_mat_def vec_sub_def mat_add_def vec_add_def scal_mat_def scal_vec_def outer_def normalize_at_def Let_def eval_nat_numeral)

lemma pos_def_diag2: "0 < a \<Longrightarrow> 0 < b \<Longrightarrow> pos_def [[a, 0], [0, b]]"
proof -
  assume a: "0 < a" and b: "0 < b"
  have "0 < dot v (mat_vec [[a, 0], [0, b]] v)" if l: "length v = 2" and n: "v \<noteq> zero_vec 2" for v
  proof -
    obtain p q where v: "v = [p, q]" using vec2 [OF l] by blast
    with n have "p \<noteq> 0 \<or> q \<noteq> 0" by (auto simp add: zero_vec_def eval_nat_numeral)
    then have "0 < a * (p * p) + b * (q * q)"
      using a b by (metis add_nonneg_pos add_pos_nonneg mult_nonneg_nonneg mult_pos_pos
          less_eq_real_def not_real_square_gt_zero zero_le_square)
    then show ?thesis by (simp add: v dot_def mat_vec_def algebra_simps)
  qed
  then show ?thesis by (auto simp add: pos_def_def numeral_2_eq_2)
qed

lemma pos_def_diag3: "0 < a \<Longrightarrow> 0 < b \<Longrightarrow> 0 < c \<Longrightarrow> pos_def [[a, 0, 0], [0, b, 0], [0, 0, c]]"
proof -
  assume a: "0 < a" and b: "0 < b" and c: "0 < c"
  have "0 < dot v (mat_vec [[a, 0, 0], [0, b, 0], [0, 0, c]] v)"
    if l: "length v = 3" and n: "v \<noteq> zero_vec 3" for v
  proof -
    obtain p q r where v: "v = [p, q, r]" using vec3 [OF l] by blast
    with n have "p \<noteq> 0 \<or> q \<noteq> 0 \<or> r \<noteq> 0" by (auto simp add: zero_vec_def eval_nat_numeral)
    moreover have "0 \<le> a * (p * p)" "0 \<le> b * (q * q)" "0 \<le> c * (r * r)"
      using a b c by simp_all
    moreover have "p \<noteq> 0 \<Longrightarrow> 0 < a * (p * p)" "q \<noteq> 0 \<Longrightarrow> 0 < b * (q * q)" "r \<noteq> 0 \<Longrightarrow> 0 < c * (r * r)"
      using a b c by (auto simp add: zero_less_mult_iff)
    ultimately have "0 < a * (p * p) + b * (q * q) + c * (r * r)"
      by (smt (verit))
    then show ?thesis by (simp add: v dot_def mat_vec_def algebra_simps)
  qed
  then show ?thesis by (auto simp add: pos_def_def numeral_3_eq_3)
qed

theorem nis_nonneg_if_pos_def_witness:
  "pos_def (lidar_S still_UKF) \<and> 0 \<le> lidar_nis lidar_1_2 still_UKF \<and>
   pos_def (radar_S still_UKF) \<and> 0 \<le> radar_nis radar_origin still_UKF"
proof -
  have a: "pos_def (lidar_S still_UKF)"
    unfolding still_lidar_S by (rule pos_def_diag2) (simp_all add: std_laspx_def std_laspy_def)
  have b: "pos_def (radar_S still_UKF)"
    unfolding still_radar_S by (rule pos_def_diag3) (simp_all add: std_radr_def std_radphi_def std_radrd_def)
  show ?thesis
    using a b nis_nonneg_if_pos_def [of still_UKF lidar_1_2]
      nis_nonneg_if_pos_def [of still_UKF radar_origin] by blast
qed

text \<open>
  The chain of values for the estimator \<open>turning_UKF\<close> and an interval of one second:
  the augmented covariance, its Cholesky factor, the augmented sigma points, the
  predicted sigma points, and the lidar innovation covariance.
\<close>

lemma sqrt_third: "sqrt (1 / 3) = 1 / sqrt 3"
  by (simp add: real_sqrt_divide)

lemma sqrt_pi12: "sqrt (pi * pi / 12) = pi * sqrt 3 / 6"
proof -
  have "0 \<le> pi * sqrt 3 / 6" by simp
  moreover have "(pi * sqrt 3 / 6)\<^sup>2 = pi * pi / 12"
    by (simp add: power2_eq_square field_simps)
  ultimately show ?thesis by (metis real_sqrt_unique)
qed

lemma sqrt_pi3: "sqrt (pi * pi / 3) = pi * sqrt 3 / 3"
proof -
  have "0 \<le> pi * sqrt 3 / 3" by simp
  moreover have "(pi * sqrt 3 / 3)\<^sup>2 = pi * pi / 3"
    by (simp add: power2_eq_square field_simps)
  ultimately show ?thesis by (metis real_sqrt_unique)
qed

lemma sqrt3_pi: "sqrt 3 * (pi * sqrt 3) = 3 * pi"
  by simp

lemma pi_guard: "1 < pi * 1000"
  using pi_ge_two by simp

lemma turning_augmented_covariance:
  "augmented_covariance
     [[1 / 3, 0, 0, pi / 6, 0],
      [0, 1 / 3, 0, pi / 6, 0],
      [0, 0, 1 / 3, 0, 0],
      [pi / 6, pi / 6, 0, pi * pi / 4, 0],
      [0, 0, 0, 0, pi * pi / 3]]
   = [[1 / 3, 0, 0, pi / 6, 0, 0, 0],
      [0, 1 / 3, 0, pi / 6, 0, 0, 0],
      [0, 0, 1 / 3, 0, 0, 0, 0],
      [pi / 6, pi / 6, 0, pi * pi / 4, 0, 0, 0],
      [0, 0, 0, 0, pi * pi / 3, 0, 0],
      [0, 0, 0, 0, 0, std_a * std_a, 0],
      [0, 0, 0, 0, 0, 0, std_yawdd * std_yawdd]]"
  by (simp add: augmented_covariance_def n_x_def eval_nat_numeral)

lemma turning_cholesky:
  "llt_matrixL
     [[1 / 3, 0, 0, pi / 6, 0, 0, 0],
      [0, 1 / 3, 0, pi / 6, 0, 0, 0],
      [0, 0, 1 / 3, 0, 0, 0, 0],
      [pi / 6, pi / 6, 0, pi * pi / 4, 0, 0, 0],
      [0, 0, 0, 0, pi * pi / 3, 0, 0],
      [0, 0, 0, 0, 0, std_a * std_a, 0],
      [0, 0, 0, 0, 0, 0, std_yawdd * std_yawdd]]
   = [[1 / sqrt 3, 0, 0, 0, 0, 0, 0],
      [0, 1 / sqrt 3, 0, 0, 0, 0, 0],
      [0, 0, 1 / sqrt 3, 0, 0, 0, 0],
      [pi * sqrt 3 / 6, pi * sqrt 3 / 6, 0, pi * sqrt 3 / 6, 0, 0, 0],
      [0, 0, 0, 0, pi * sqrt 3 / 3, 0, 0],
      [0, 0, 0, 0, 0, std_a, 0],
      [0, 0, 0, 0, 0, 0, std_yawdd]]"
  by (simp add: llt_matrixL_def dot_def sqrt_third sqrt_pi12 sqrt_pi3 std_abs Let_def)

lemma turning_sigma_points:
  "augmented_sigma_points [0, 0, 3, 0, 0]
     [[1 / 3, 0, 0, pi / 6, 0],
      [0, 1 / 3, 0, pi / 6, 0],
      [0, 0, 1 / 3, 0, 0],
      [pi / 6, pi / 6, 0, pi * pi / 4, 0],
      [0, 0, 0, 0, pi * pi / 3]]
   = [[0, 0, 3, 0, 0, 0, 0],
      [1, 0, 3, pi / 2, 0, 0, 0],
      [0, 1, 3, pi / 2, 0, 0, 0],
      [0, 0, 4, 0, 0, 0, 0],
      [0, 0, 3, pi / 2, 0, 0, 0],
      [0, 0, 3, 0, pi, 0, 0],
      [0, 0, 3, 0, 0, sqrt 3 * std_a, 0],
      [0, 0, 3, 0, 0, 0, sqrt 3 * std_yawdd],
      [- 1, 0, 3, - (pi / 2), 0, 0, 0],
      [0, - 1, 3, - (pi / 2), 0, 0, 0],
      [0, 0, 2, 0, 0, 0, 0],
      [0, 0, 3, - (pi / 2), 0, 0, 0],
      [0, 0, 3, 0, - pi, 0, 0],
      [0, 0, 3, 0, 0, - (sqrt 3 * std_a), 0],
      [0, 0, 3, 0, 0, 0, - (sqrt 3 * std_yawdd)]]"
  unfolding augmented_sigma_points_def turning_augmented_covariance turning_cholesky
  by (simp add: Let_def n_aug_value lambda_value col_def vec_add_def vec_sub_def scal_vec_def
      upt_conv_Cons sqrt3_pi)

lemma turning_Xsig_pred:
  assumes "x s = [0, 0, 3, 0, 0]"
    and "P s = [[1 / 3, 0, 0, pi / 6, 0],
                [0, 1 / 3, 0, pi / 6, 0],
                [0, 0, 1 / 3, 0, 0],
                [pi / 6, pi / 6, 0, pi * pi / 4, 0],
                [0, 0, 0, 0, pi * pi / 3]]"
  shows "Xsig_pred (Prediction 1 s) =
     [[3, 0, 3, 0, 0],
      [1, 3, 3, pi / 2, 0],
      [0, 4, 3, pi / 2, 0],
      [4, 0, 4, 0, 0],
      [0, 3, 3, pi / 2, 0],
      [0, 6 / pi, 3, pi, pi],
      [3 + sqrt 3 * std_a / 2, 0, 3 + sqrt 3 * std_a, 0, 0],
      [3, 0, 3, sqrt 3 * std_yawdd / 2, sqrt 3 * std_yawdd],
      [- 1, - 3, 3, - (pi / 2), 0],
      [0, - 4, 3, - (pi / 2), 0],
      [2, 0, 2, 0, 0],
      [0, - 3, 3, - (pi / 2), 0],
      [0, - (6 / pi), 3, - pi, - pi],
      [3 - sqrt 3 * std_a / 2, 0, 3 - sqrt 3 * std_a, 0, 0],
      [3, 0, 3, - (sqrt 3 * std_yawdd / 2), - (sqrt 3 * std_yawdd)]]"
  unfolding Prediction_def assms turning_sigma_points Let_def
  by (simp add: n_sig_value upt_15 ctrv_def ctrv_position_def Let_def pi_guard)

lemma turning_Zsig:
  assumes "Xsig_pred s =
     [[3, 0, 3, 0, 0],
      [1, 3, 3, pi / 2, 0],
      [0, 4, 3, pi / 2, 0],
      [4, 0, 4, 0, 0],
      [0, 3, 3, pi / 2, 0],
      [0, 6 / pi, 3, pi, pi],
      [3 + sqrt 3 * std_a / 2, 0, 3 + sqrt 3 * std_a, 0, 0],
      [3, 0, 3, sqrt 3 * std_yawdd / 2, sqrt 3 * std_yawdd],
      [- 1, - 3, 3, - (pi / 2), 0],
      [0, - 4, 3, - (pi / 2), 0],
      [2, 0, 2, 0, 0],
      [0, - 3, 3, - (pi / 2), 0],
      [0, - (6 / pi), 3, - pi, - pi],
      [3 - sqrt 3 * std_a / 2, 0, 3 - sqrt 3 * std_a, 0, 0],
      [3, 0, 3, - (sqrt 3 * std_yawdd / 2), - (sqrt 3 * std_yawdd)]]"
  shows "lidar_Zsig s =
     [[3, 0], [1, 3], [0, 4], [4, 0], [0, 3], [0, 6 / pi], [3 + sqrt 3 * std_a / 2, 0], [3, 0],
      [- 1, - 3], [0, - 4], [2, 0], [0, - 3], [0, - (6 / pi)], [3 - sqrt 3 * std_a / 2, 0], [3, 0]]"
  unfolding lidar_Zsig_def assms
  by (simp add: n_sig_value upt_15)

lemma turning_z_pred:
  assumes "lidar_Zsig s =
     [[3, 0], [1, 3], [0, 4], [4, 0], [0, 3], [0, 6 / pi], [3 + sqrt 3 * std_a / 2, 0], [3, 0],
      [- 1, - 3], [0, - 4], [2, 0], [0, - 3], [0, - (6 / pi)], [3 - sqrt 3 * std_a / 2, 0], [3, 0]]"
    and "weights s = set_weights"
  shows "lidar_z_pred s = [- 1, 0]"
  unfolding lidar_z_pred_def assms
  by (simp add: weighted_sum_def n_sig_value upt_15 set_weights_value zero_vec_def vec_add_def
      scal_vec_def replicate_15 eval_nat_numeral add_divide_distrib diff_divide_distrib)

lemma turning_S:
  assumes "lidar_Zsig s =
     [[3, 0], [1, 3], [0, 4], [4, 0], [0, 3], [0, 6 / pi], [3 + sqrt 3 * std_a / 2, 0], [3, 0],
      [- 1, - 3], [0, - 4], [2, 0], [0, - 3], [0, - (6 / pi)], [3 - sqrt 3 * std_a / 2, 0], [3, 0]]"
    and "weights s = set_weights"
    and "lidar_z_pred s = [- 1, 0]"
  shows "lidar_S s = [[- (1621 / 1200), 1], [1, 12 / (pi * pi) + 13627 / 1200]]"
  unfolding lidar_S_def assms
  by (simp add: n_sig_value upt_15 set_weights_value replicate_15 zero_mat_def vec_sub_def
      mat_add_def vec_add_def scal_mat_def scal_vec_def outer_def Let_def eval_nat_numeral
      std_a_def std_laspx_def std_laspy_def algebra_simps sqrt3_sq
      add_divide_distrib diff_divide_distrib)

lemma vec5: "length v = 5 \<Longrightarrow> \<exists>a b c d e. v = [a, b, c, d, e]"
  by (auto simp add: length_Suc_conv eval_nat_numeral)

lemma sum5_squares_pos:
  fixes a b c d e :: real
  assumes "a \<noteq> 0 \<or> b \<noteq> 0 \<or> c \<noteq> 0 \<or> d \<noteq> 0 \<or> e \<noteq> 0"
  shows "0 < a\<^sup>2 + b\<^sup>2 + c\<^sup>2 + d\<^sup>2 + e\<^sup>2"
proof -
  have "0 \<le> a\<^sup>2" "0 \<le> b\<^sup>2" "0 \<le> c\<^sup>2" "0 \<le> d\<^sup>2" "0 \<le> e\<^sup>2" by simp_all
  moreover have "0 < a\<^sup>2 \<or> 0 < b\<^sup>2 \<or> 0 < c\<^sup>2 \<or> 0 < d\<^sup>2 \<or> 0 < e\<^sup>2"
    using assms by simp
  ultimately show ?thesis by linarith
qed

lemma turning_P_pos_def:
  "pos_def [[1 / 3, 0, 0, pi / 6, 0],
            [0, 1 / 3, 0, pi / 6, 0],
            [0, 0, 1 / 3, 0, 0],
            [pi / 6, pi / 6, 0, pi * pi / 4, 0],
            [0, 0, 0, 0, pi * pi / 3]]"
proof -
  let ?P = "[[1 / 3, 0, 0, pi / 6, 0],
            [0, 1 / 3, 0, pi / 6, 0],
            [0, 0, 1 / 3, 0, 0],
            [pi / 6, pi / 6, 0, pi * pi / 4, 0],
            [0, 0, 0, 0, pi * pi / 3]]"
  have "0 < dot v (mat_vec ?P v)" if l: "length v = 5" and n: "v \<noteq> zero_vec 5" for v
  proof -
    obtain a b c d e where v: "v = [a, b, c, d, e]" using vec5 [OF l] by blast
    with n have nz: "a \<noteq> 0 \<or> b \<noteq> 0 \<or> c \<noteq> 0 \<or> d \<noteq> 0 \<or> e \<noteq> 0"
      by (auto simp add: zero_vec_def eval_nat_numeral)
    have "a + pi * d / 2 \<noteq> 0 \<or> b + pi * d / 2 \<noteq> 0 \<or> c \<noteq> 0 \<or> pi * d / 2 \<noteq> 0 \<or> pi * e \<noteq> 0"
      using nz by auto
    then have "0 < (a + pi * d / 2)\<^sup>2 + (b + pi * d / 2)\<^sup>2 + c\<^sup>2 + (pi * d / 2)\<^sup>2 + (pi * e)\<^sup>2"
      by (rule sum5_squares_pos)
    moreover have "dot v (mat_vec ?P v)
        = ((a + pi * d / 2)\<^sup>2 + (b + pi * d / 2)\<^sup>2 + c\<^sup>2 + (pi * d / 2)\<^sup>2 + (pi * e)\<^sup>2) / 3"
      by (simp add: v dot_def mat_vec_def power2_eq_square field_simps)
    ultimately show ?thesis by simp
  qed
  then show ?thesis by (auto simp add: pos_def_def eval_nat_numeral)
qed

text \<open>
  C5, as the claim states it, fails for a lidar update. The estimator \<open>turning_UKF\<close> has
  a positive definite covariance; \<open>ProcessMeasurement\<close> of a lidar measurement one second
  later predicts sigma points whose innovation covariance has a negative first entry,
  and the value appended to the lidar history is negative.
\<close>

theorem negative_nis_counterexample:
  "pos_def (P turning_UKF) \<and>
   lidar_S (Prediction 1 (turning_UKF\<lparr>time_us := 1000000\<rparr>))
     = [[- (1621 / 1200), 1], [1, 12 / (pi * pi) + 13627 / 1200]] \<and>
   nis_laser (ProcessMeasurement lidar_0_0 turning_UKF)
     = [0, lidar_nis lidar_0_0 (Prediction 1 (turning_UKF\<lparr>time_us := 1000000\<rparr>))] \<and>
   lidar_nis lidar_0_0 (Prediction 1 (turning_UKF\<lparr>time_us := 1000000\<rparr>)) < 0"
proof -
  let ?s = "Prediction 1 (turning_UKF\<lparr>time_us := 1000000\<rparr>)"
  have a: "pos_def (P turning_UKF)" using turning_P_pos_def by simp
  have X: "Xsig_pred ?s = 
     [[3, 0, 3, 0, 0],
      [1, 3, 3, pi / 2, 0],
      [0, 4, 3, pi / 2, 0],
      [4, 0, 4, 0, 0],
      [0, 3, 3, pi / 2, 0],
      [0, 6 / pi, 3, pi, pi],
      [3 + sqrt 3 * std_a / 2, 0, 3 + sqrt 3 * std_a, 0, 0],
      [3, 0, 3, sqrt 3 * std_yawdd / 2, sqrt 3 * std_yawdd],
      [- 1, - 3, 3, - (pi / 2), 0],
      [0, - 4, 3, - (pi / 2), 0],
      [2, 0, 2, 0, 0],
      [0, - 3, 3, - (pi / 2), 0],
      [0, - (6 / pi), 3, - pi, - pi],
      [3 - sqrt 3 * std_a / 2, 0, 3 - sqrt 3 * std_a, 0, 0],
      [3, 0, 3, - (sqrt 3 * std_yawdd / 2), - (sqrt 3 * std_yawdd)]]"
    by (rule turning_Xsig_pred) simp_all
  have w: "weights ?s = set_weights" by simp
  note Z = turning_Zsig [OF X]
  note z = turning_z_pred [OF Z w]
  note S = turning_S [OF Z w z]
  have r: "lidar_residual lidar_0_0 ?s = [1, 0]"
    by (simp add: lidar_residual_def Let_def z vec_sub_def)
  have n: "lidar_nis lidar_0_0 ?s
      = (12 / (pi * pi) + 13627 / 1200)
        / (- (1621 / 1200) * (12 / (pi * pi) + 13627 / 1200) - 1)"
    unfolding lidar_nis_def Let_def r S
    by (simp add: mat_inverse_def det2_def adjugate2_def quadratic_form2)
  have p: "0 < 12 / (pi * pi) + 13627 / (1200::real)"
    by (simp add: add_pos_pos)
  then have "0 < (1621 / 1200) * (12 / (pi * pi) + 13627 / 1200)"
    by (rule mult_pos_pos [rotated]) simp
  then have "- (1621 / 1200) * (12 / (pi * pi) + 13627 / 1200) - 1 < 0"
    by linarith
  with p have neg: "lidar_nis lidar_0_0 ?s < 0"
    unfolding n by (simp add: divide_neg_pos divide_pos_neg)
  have h: "nis_laser (ProcessMeasurement lidar_0_0 turning_UKF) = [0, lidar_nis lidar_0_0 ?s]"
    by (simp add: ProcessMeasurement_def Let_def UKF_new_def)
  from a S h neg show ?thesis by blast
qed

end
